theory Spec2Isabelle
  imports Complex_Main "HOL-Library.AList" "HOL-Library.Char_ord"
begin

section \<open>Errors raised by the program\<close>

text \<open>
  The TypeScript sources raise \<^verbatim>\<open>LogicError\<close> on a violated state-machine
  precondition. A read of a property of \<^verbatim>\<open>undefined\<close> raises the runtime's
  \<^verbatim>\<open>TypeError\<close>; \<open>Error\<close> is any other exception or rejection, with its message. They
  are values here; a function that can raise returns \<open>error + 'a\<close>, with \<open>Inl\<close> for the
  exception.
\<close>

datatype error = LogicError string | TypeError | Error string

section \<open>Backoff policies (src/support/backoff.ts)\<close>

text \<open>
  \<^verbatim>\<open>TriesBackoffEntry\<close> is the interface \<^verbatim>\<open>{ tries: number; millis: number }\<close>.
  The numbers the program stores there are whole numbers of tries and of milliseconds.
\<close>

record TriesBackoffEntry =
  tries :: int
  millis :: int

text \<open>
  The private fields \<^verbatim>\<open>_entries\<close>, \<^verbatim>\<open>_index\<close> and \<^verbatim>\<open>_tries\<close> of class
  \<^verbatim>\<open>TriesBackoff\<close>.
\<close>

record TriesBackoff =
  p_entries :: "TriesBackoffEntry list"
  p_index :: nat
  p_tries :: int

text \<open>
  The constructor: it throws on an empty list, maps tuples to entries (the model takes the
  entries themselves) and sorts a copy by \<^verbatim>\<open>Math.sign(a.tries - b.tries)\<close>.
  \<^verbatim>\<open>Array.prototype.sort\<close> is stable, as \<^const>\<open>sort_key\<close> is.
\<close>

definition TriesBackoff_new :: "TriesBackoffEntry list \<Rightarrow> error + TriesBackoff" where
  "TriesBackoff_new es =
     (if length es = 0 then Inl (LogicError ''entries must not be empty'')
      else Inr \<lparr> p_entries = sort_key tries es, p_index = 0, p_tries = 0 \<rparr>)"

text \<open>
  \<^verbatim>\<open>getMillis\<close> reads \<^verbatim>\<open>this._entries[this._index].millis\<close>; out of range the
  array read gives \<^verbatim>\<open>undefined\<close> and the property read throws.
\<close>

definition getMillis :: "TriesBackoff \<Rightarrow> error + int" where
  "getMillis b =
     (if p_index b < length (p_entries b) then Inr (millis (p_entries b ! p_index b))
      else Inl TypeError)"

text \<open>
  \<^verbatim>\<open>nextTry\<close>: increment \<^verbatim>\<open>_tries\<close>; if there is a next entry and
  \<^verbatim>\<open>this._entries[this._index + 1].tries >= this._tries\<close>, increment \<^verbatim>\<open>_index\<close>;
  return \<^verbatim>\<open>getMillis()\<close>. The function returns the value together with the updated
  object.
\<close>

definition nextTry :: "TriesBackoff \<Rightarrow> (error + int) \<times> TriesBackoff" where
  "nextTry b =
     (let b1 = b \<lparr> p_tries := p_tries b + 1 \<rparr>;
          b2 = (if int (p_index b1) < int (length (p_entries b1)) - 1
                   \<and> tries (p_entries b1 ! (p_index b1 + 1)) \<ge> p_tries b1
                then b1 \<lparr> p_index := p_index b1 + 1 \<rparr>
                else b1)
      in (getMillis b2, b2))"

definition reset :: "TriesBackoff \<Rightarrow> TriesBackoff" where
  "reset b = b \<lparr> p_tries := 0, p_index := 0 \<rparr>"

text \<open>The values returned by \<open>n\<close> successive calls of \<^verbatim>\<open>nextTry\<close>, and the object after them.\<close>

fun nextTry_calls :: "nat \<Rightarrow> TriesBackoff \<Rightarrow> (error + int) list \<times> TriesBackoff" where
  "nextTry_calls 0 b = ([], b)"
| "nextTry_calls (Suc n) b =
     (let (r, b1) = nextTry b; (rs, b2) = nextTry_calls n b1 in (r # rs, b2))"

text \<open>
  What the specification says a tiered backoff returns at accumulated try count \<open>n\<close>:
  the \<^verbatim>\<open>millis\<close> of the last entry (of the sorted list) whose threshold the count has
  reached; the first entry's while none beyond it has been reached.
\<close>

fun spec_delay :: "TriesBackoffEntry list \<Rightarrow> int \<Rightarrow> int" where
  "spec_delay [] n = 0"
| "spec_delay [e] n = millis e"
| "spec_delay (e # e' # es) n = (if tries e' \<le> n then spec_delay (e' # es) n else millis e)"

section \<open>Event emitters and subscriptions (node:events, src/support/events/subscriptions.ts)\<close>

text \<open>
  The listener table of a Node \<^verbatim>\<open>EventEmitter\<close>: pairs of event name and listener, in
  the order of registration. \<open>'h\<close> is the type of listener identities (closures are
  compared by reference). \<^verbatim>\<open>on\<close> appends; \<^verbatim>\<open>off\<close>/\<^verbatim>\<open>removeListener\<close> removes the
  most recently added instance of the listener, if there is one; \<^verbatim>\<open>emit\<close> calls the
  listeners of the event name, from a copy of the table taken before the first call.
\<close>

type_synonym 'h EventEmitter = "(string \<times> 'h) list"

definition addListener :: "string \<Rightarrow> 'h \<Rightarrow> 'h EventEmitter \<Rightarrow> 'h EventEmitter" where
  "addListener n h L = L @ [(n, h)]"

definition removeListener :: "string \<Rightarrow> 'h \<Rightarrow> 'h EventEmitter \<Rightarrow> 'h EventEmitter" where
  "removeListener n h L = rev (remove1 (n, h) (rev L))"

definition listeners :: "string \<Rightarrow> 'h EventEmitter \<Rightarrow> 'h list" where
  "listeners n L = map snd (filter (\<lambda>p. fst p = n) L)"

text \<open>
  Class \<^verbatim>\<open>Subscription\<close> holds \<^verbatim>\<open>_eventEmitter\<close>, \<^verbatim>\<open>_eventName\<close> and
  \<^verbatim>\<open>_handler\<close>, all set to \<^verbatim>\<open>null\<close> by \<^verbatim>\<open>unsubscribe\<close>. The emitter is passed
  explicitly: \<open>Some (n, h)\<close> is a live subscription, \<open>None\<close> one whose fields are null.
\<close>

type_synonym 'h Subscription = "(string \<times> 'h) option"

definition subscribe :: "string \<Rightarrow> 'h \<Rightarrow> 'h EventEmitter \<Rightarrow> 'h Subscription \<times> 'h EventEmitter" where
  "subscribe n h L = (Some (n, h), addListener n h L)"

definition unsubscribe :: "'h Subscription \<Rightarrow> 'h EventEmitter \<Rightarrow> 'h Subscription \<times> 'h EventEmitter" where
  "unsubscribe s L = (case s of None \<Rightarrow> (None, L) | Some (n, h) \<Rightarrow> (None, removeListener n h L))"

section \<open>Request watcher (src/browser/requests.ts)\<close>

text \<open>
  \<^verbatim>\<open>secsToHrTime\<close> (src/support/timestamp.ts) on exact rationals; the rounding of the
  source's floating-point multiplication is not modelled.
\<close>

definition secsToHrTime :: "rat \<Rightarrow> int" where
  "secsToHrTime secs =
     (let whole = \<lfloor>secs\<rfloor>; fraction = secs - of_int whole
      in whole * 1000000 + \<lfloor>fraction * 1000000\<rfloor>)"

datatype RequestWatcherState = RW_Initial | RW_Watching | RW_Closed

datatype RequestReadyState = Pending | Response | Loaded | Failed

text \<open>
  The union type \<^verbatim>\<open>Request\<close>: one record, the properties a variant does not have are
  \<open>None\<close> (\<^verbatim>\<open>undefined\<close>). A header map (\<^verbatim>\<open>Record<string, string>\<close>) is an association
  list in property order.
\<close>

record Request =
  readyState :: RequestReadyState
  id' :: string
  url :: string
  sentAt :: int
  responseReceivedAt :: "int option"
  statusCode :: "int option"
  headers :: "(string \<times> string) list option"
  fromDiskCache :: "bool option"
  completedAt :: "int option"
  errorText :: "string option"

text \<open>The part of \<^verbatim>\<open>Protocol.Network.Response\<close> the watcher reads.\<close>

record ProtocolResponse =
  resp_status :: int
  resp_headers :: "(string \<times> string) list"
  resp_fromDiskCache :: "bool option"

text \<open>
  The four CDP Network events with the parameters the handlers read:
  \<^verbatim>\<open>requestId\<close>, \<^verbatim>\<open>request.url\<close>, \<^verbatim>\<open>timestamp\<close>, \<^verbatim>\<open>redirectResponse\<close>;
  \<^verbatim>\<open>requestId\<close>, \<^verbatim>\<open>timestamp\<close>, \<^verbatim>\<open>response\<close>; \<^verbatim>\<open>requestId\<close>, \<^verbatim>\<open>timestamp\<close>;
  \<^verbatim>\<open>requestId\<close>, \<^verbatim>\<open>timestamp\<close>, \<^verbatim>\<open>errorText\<close>.
\<close>

datatype NetworkEvent =
    RequestWillBeSent string string rat "ProtocolResponse option"
  | ResponseReceived string rat ProtocolResponse
  | LoadingFinished string rat
  | LoadingFailed string rat string

fun eventName :: "NetworkEvent \<Rightarrow> string" where
  "eventName (RequestWillBeSent _ _ _ _) = ''Network.requestWillBeSent''"
| "eventName (ResponseReceived _ _ _) = ''Network.responseReceived''"
| "eventName (LoadingFinished _ _) = ''Network.loadingFinished''"
| "eventName (LoadingFailed _ _ _) = ''Network.loadingFailed''"

fun requestId :: "NetworkEvent \<Rightarrow> string" where
  "requestId (RequestWillBeSent i _ _ _) = i"
| "requestId (ResponseReceived i _ _) = i"
| "requestId (LoadingFinished i _) = i"
| "requestId (LoadingFailed i _ _) = i"

text \<open>
  The keys of \<^verbatim>\<open>_clientSubs\<close>; each also names the bound method the watcher registers
  on the client under that key.
\<close>

datatype WatcherHandler = OnHttpRequest | OnHttpResponse | OnHttpFinished | OnHttpFailed

text \<open>The watcher's own events \<^verbatim>\<open>pending\<close> and \<^verbatim>\<open>request\<close>, with their payload.\<close>

datatype WatcherEvent = EvPending Request | EvRequest Request

text \<open>
  The private fields of class \<^verbatim>\<open>RequestWatcher\<close>.
  \<^item> \<open>p_requests\<close> is the \<^verbatim>\<open>Map\<close> \<^verbatim>\<open>_requests\<close>, in insertion order.
  \<^item> \<open>p_initialRequest\<close> is \<^verbatim>\<open>_initialRequest\<close>: a reference to a record object
    that is also a value of \<^verbatim>\<open>_requests\<close>. Records are mutated in place
    (\<^verbatim>\<open>Object.assign\<close>) and never removed, so the reference is modelled by the record's
    key in \<open>p_requests\<close>.
  \<^item> \<open>p_initialRequestSource\<close> is the \<^verbatim>\<open>PromiseSource\<close>: \<open>None\<close> while the promise is
    pending, then the value it was first resolved with.
  \<^item> \<open>p_clientSubs\<close> is the table \<^verbatim>\<open>_clientSubs\<close>.
  \<^item> \<open>client_listeners\<close> is the listener table of the CDP client \<^verbatim>\<open>_client\<close> refers
    to, restricted to the watcher's listeners.
  \<^item> \<open>p_emitted\<close> logs the events the watcher emits.
\<close>

record RequestWatcher =
  p_onlyInitial :: bool
  p_state :: RequestWatcherState
  p_requests :: "(string \<times> Request) list"
  p_initialRequest :: "string option"
  p_initialRequestSource :: "Request option"
  p_clientSubs :: "WatcherHandler \<rightharpoonup> WatcherHandler Subscription"
  client_listeners :: "WatcherHandler EventEmitter"
  p_emitted :: "WatcherEvent list"

text \<open>The constructor; the argument is \<^verbatim>\<open>options?.onlyInitial\<close>.\<close>

definition RequestWatcher_new :: "bool option \<Rightarrow> RequestWatcher" where
  "RequestWatcher_new onlyInitial =
     \<lparr> p_onlyInitial = (case onlyInitial of None \<Rightarrow> False | Some b \<Rightarrow> b),
       p_state = RW_Initial, p_requests = [], p_initialRequest = None,
       p_initialRequestSource = None, p_clientSubs = Map.empty,
       client_listeners = [], p_emitted = [] \<rparr>"

text \<open>The getter \<^verbatim>\<open>initialRequest\<close>: the record only once it is Loaded or Failed.\<close>

definition initialRequest :: "RequestWatcher \<Rightarrow> Request option" where
  "initialRequest w =
     (case p_initialRequest w of
        None \<Rightarrow> None
      | Some k \<Rightarrow>
          (case map_of (p_requests w) k of
             None \<Rightarrow> None
           | Some r \<Rightarrow>
               if readyState r \<noteq> Loaded \<and> readyState r \<noteq> Failed then None else Some r))"

definition subscribe_sub :: "WatcherHandler \<Rightarrow> string \<Rightarrow> RequestWatcher \<Rightarrow> RequestWatcher" where
  "subscribe_sub k n w =
     (let (s, L) = subscribe n k (client_listeners w)
      in w \<lparr> p_clientSubs := (p_clientSubs w)(k \<mapsto> s), client_listeners := L \<rparr>)"

text \<open>\<^verbatim>\<open>watch(client)\<close>; the client is the one whose table \<open>client_listeners\<close> is.\<close>

definition watch :: "RequestWatcher \<Rightarrow> error + RequestWatcher" where
  "watch w =
     (if p_state w \<noteq> RW_Initial then Inl (LogicError ''Invalid watcher state'')
      else
        let w1 = subscribe_sub OnHttpRequest ''Network.requestWillBeSent'' w;
            w2 = subscribe_sub OnHttpResponse ''Network.responseReceived'' w1;
            w3 = subscribe_sub OnHttpFinished ''Network.loadingFinished'' w2;
            w4 = subscribe_sub OnHttpFailed ''Network.loadingFailed'' w3
        in Inr (w4 \<lparr> p_state := RW_Watching \<rparr>))"

text \<open>\<^verbatim>\<open>this._clientSubs.k?.unsubscribe()\<close>\<close>

definition unsubscribe_sub :: "WatcherHandler \<Rightarrow> RequestWatcher \<Rightarrow> RequestWatcher" where
  "unsubscribe_sub k w =
     (case p_clientSubs w k of
        None \<Rightarrow> w
      | Some s \<Rightarrow>
          let (s', L) = unsubscribe s (client_listeners w)
          in w \<lparr> p_clientSubs := (p_clientSubs w)(k \<mapsto> s'), client_listeners := L \<rparr>)"

text \<open>One round of the loop of \<^verbatim>\<open>close\<close>: unsubscribe and set the entry to undefined.\<close>

definition close_sub :: "WatcherHandler \<Rightarrow> RequestWatcher \<Rightarrow> RequestWatcher" where
  "close_sub k w =
     (case p_clientSubs w k of
        None \<Rightarrow> w
      | Some s \<Rightarrow> (unsubscribe_sub k w) \<lparr> p_clientSubs := (p_clientSubs (unsubscribe_sub k w))(k := None) \<rparr>)"

definition close_watcher :: "RequestWatcher \<Rightarrow> RequestWatcher" where
  "close_watcher w =
     (if p_state w = RW_Closed then w
      else (fold close_sub [OnHttpRequest, OnHttpResponse, OnHttpFinished, OnHttpFailed] w)
             \<lparr> p_state := RW_Closed \<rparr>)"

definition emit_watcher :: "WatcherEvent \<Rightarrow> RequestWatcher \<Rightarrow> RequestWatcher" where
  "emit_watcher e w = w \<lparr> p_emitted := p_emitted w @ [e] \<rparr>"

definition onRequestDone :: "Request \<Rightarrow> RequestWatcher \<Rightarrow> RequestWatcher" where
  "onRequestDone request w =
     (let w1 = (if Some (id' request) = p_initialRequest w
                then (case p_initialRequestSource w of
                        None \<Rightarrow> w \<lparr> p_initialRequestSource := Some request \<rparr>
                      | Some _ \<Rightarrow> w)
                else w)
      in emit_watcher (EvRequest request) w1)"

definition onHttpRequest ::
  "string \<Rightarrow> string \<Rightarrow> rat \<Rightarrow> ProtocolResponse option \<Rightarrow> RequestWatcher \<Rightarrow> RequestWatcher" where
  "onHttpRequest rid rurl ts redirectResponse w =
     (if redirectResponse \<noteq> None then w
      else
        let w1 = (if p_onlyInitial w then unsubscribe_sub OnHttpRequest w else w);
            request = \<lparr> readyState = Pending, id' = rid, url = rurl, sentAt = secsToHrTime ts,
                        responseReceivedAt = None, statusCode = None, headers = None,
                        fromDiskCache = None, completedAt = None, errorText = None \<rparr>
        in if map_of (p_requests w1) rid \<noteq> None then w1
           else
             let w2 = w1 \<lparr> p_requests := p_requests w1 @ [(rid, request)] \<rparr>;
                 w3 = (if p_initialRequest w2 = None then w2 \<lparr> p_initialRequest := Some rid \<rparr>
                       else w2)
             in emit_watcher (EvPending request) w3)"

definition onHttpResponse :: "string \<Rightarrow> rat \<Rightarrow> ProtocolResponse \<Rightarrow> RequestWatcher \<Rightarrow> RequestWatcher" where
  "onHttpResponse rid ts response w =
     (case map_of (p_requests w) rid of
        None \<Rightarrow> w
      | Some request \<Rightarrow>
          let w1 = (if p_onlyInitial w then unsubscribe_sub OnHttpResponse w else w)
          in if readyState request \<noteq> Pending then w1
             else
               let respondedRequest = request
                     \<lparr> readyState := Response,
                       responseReceivedAt := Some (secsToHrTime ts),
                       statusCode := Some (resp_status response),
                       headers := Some (resp_headers response),
                       fromDiskCache := Some (case resp_fromDiskCache response of
                                                None \<Rightarrow> False | Some b \<Rightarrow> b) \<rparr>
               in w1 \<lparr> p_requests := AList.update rid respondedRequest (p_requests w1) \<rparr>)"

definition onHttpFinished :: "string \<Rightarrow> rat \<Rightarrow> RequestWatcher \<Rightarrow> RequestWatcher" where
  "onHttpFinished rid ts w =
     (case map_of (p_requests w) rid of
        None \<Rightarrow> w
      | Some request \<Rightarrow>
          let w1 = (if p_onlyInitial w then unsubscribe_sub OnHttpFinished w else w)
          in if readyState request \<noteq> Response then w1
             else
               let loadedRequest = request
                     \<lparr> readyState := Loaded, completedAt := Some (secsToHrTime ts) \<rparr>
               in onRequestDone loadedRequest
                    (w1 \<lparr> p_requests := AList.update rid loadedRequest (p_requests w1) \<rparr>))"

definition onHttpFailed :: "string \<Rightarrow> rat \<Rightarrow> string \<Rightarrow> RequestWatcher \<Rightarrow> RequestWatcher" where
  "onHttpFailed rid ts etext w =
     (case map_of (p_requests w) rid of
        None \<Rightarrow> w
      | Some request \<Rightarrow>
          let w1 = (if p_onlyInitial w then unsubscribe_sub OnHttpFailed w else w)
          in if readyState request \<noteq> Pending \<and> readyState request \<noteq> Response then w1
             else
               let failedRequest = request
                     \<lparr> readyState := Failed, completedAt := Some (secsToHrTime ts),
                       errorText := Some etext \<rparr>
               in onRequestDone failedRequest
                    (w1 \<lparr> p_requests := AList.update rid failedRequest (p_requests w1) \<rparr>))"

text \<open>
  A listener called with an event. The client calls a listener only with the events of
  the name it was registered under, so the other combinations do not occur.
\<close>

fun call_handler :: "WatcherHandler \<Rightarrow> NetworkEvent \<Rightarrow> RequestWatcher \<Rightarrow> RequestWatcher" where
  "call_handler OnHttpRequest (RequestWillBeSent i u t r) w = onHttpRequest i u t r w"
| "call_handler OnHttpResponse (ResponseReceived i t r) w = onHttpResponse i t r w"
| "call_handler OnHttpFinished (LoadingFinished i t) w = onHttpFinished i t w"
| "call_handler OnHttpFailed (LoadingFailed i t e) w = onHttpFailed i t e w"
| "call_handler _ _ w = w"

text \<open>The client emits a Network event: every listener registered for its name runs.\<close>

definition client_emit :: "NetworkEvent \<Rightarrow> RequestWatcher \<Rightarrow> RequestWatcher" where
  "client_emit ev w =
     fold (\<lambda>h. call_handler h ev) (listeners (eventName ev) (client_listeners w)) w"

definition client_emits :: "NetworkEvent list \<Rightarrow> RequestWatcher \<Rightarrow> RequestWatcher" where
  "client_emits evs w = fold client_emit evs w"

section \<open>Tab renderer (src/render/tab.ts)\<close>

datatype CompletionType = Requests | Variable | Event | PageLoadTimeout | Never | Always

datatype RenderErrorType =
  TabCreationFailed | InitialRequestFailed | InitialRequestStatus | Timeout | BrowserUnavailable

text \<open>
  The message of a \<^verbatim>\<open>RenderError\<close>: \<^verbatim>\<open>null\<close>, a text (an exception's message or the
  request's \<^verbatim>\<open>errorText\<close>; \<open>None\<close> where that property is undefined), or the template
  \<^verbatim>\<open>HTTP status ${statusCode} of initial request is unexpected.\<close> with its status code.
\<close>

datatype RenderMessage = Msg_null | Msg_text "string option" | Msg_unexpected_status "int option"

record RenderError =
  err_type :: RenderErrorType
  err_message :: RenderMessage

text \<open>
  The options the renderer's control flow reads, as given (optional) and after the
  constructor applied \<^verbatim>\<open>defaults.allowPartialLoad = false\<close>,
  \<^verbatim>\<open>defaults.pageLoadTimeoutMillis = 10000\<close> and \<^verbatim>\<open>debug ?? false\<close>; the constructor
  copies \<^verbatim>\<open>expectedStatusCodes\<close> and \<^verbatim>\<open>scriptToEvaluateOnNewDocument\<close> as they are.
\<close>

record TabRenderOptions =
  o_allowPartialLoad :: "bool option"
  o_pageLoadTimeoutMillis :: "int option"
  o_expectedStatusCodes :: "int list option"
  o_scriptToEvaluateOnNewDocument :: "string option"
  o_debug :: "bool option"

record TabRenderOptionsInternal =
  allowPartialLoad :: bool
  pageLoadTimeoutMillis :: int
  expectedStatusCodes :: "int list option"
  scriptToEvaluateOnNewDocument :: "string option"
  debug :: bool

text \<open>
  \<^verbatim>\<open>RenderResult\<close>: \<^verbatim>\<open>RenderErrorResult\<close> when \<open>r_ok\<close> is false, \<^verbatim>\<open>RenderHtmlResult\<close>
  otherwise; a property the variant does not have, or that is undefined, is \<open>None\<close>.
  \<open>r_debug_requests\<close> is \<^verbatim>\<open>debug.requests\<close>. Time stamps, performance entries and
  console messages are left out.
\<close>

record RenderResult =
  r_ok :: bool
  r_type :: "RenderErrorType option"
  r_message :: "RenderMessage option"
  r_httpStatus :: "int option"
  r_headers :: "(string \<times> string) list option"
  r_resolvedUrl :: "string option"
  r_completion :: "CompletionType option"
  r_html :: "string option"
  r_debug_requests :: "Request list option"

text \<open>
  Where \<^verbatim>\<open>createTab\<close> stands:
  \<^item> at one of its awaits before the listeners are registered
    (\<^verbatim>\<open>createBrowserContext\<close>, \<^verbatim>\<open>createTarget\<close>, \<^verbatim>\<open>createCdpClient\<close>, \<^verbatim>\<open>Page.enable\<close> and
    \<^verbatim>\<open>Network.enable\<close>, \<^verbatim>\<open>Console.enable\<close>);
  \<^item> at the first \<^verbatim>\<open>await Page.addScriptToEvaluateOnNewDocument\<close>: the listener of
    \<^verbatim>\<open>domContentEventFired\<close> is registered, the request watcher does not watch yet;
  \<^item> at the second one, made when the option \<^verbatim>\<open>scriptToEvaluateOnNewDocument\<close> is
    defined: the request watcher watches.
\<close>

datatype CreateTabPc = Ct_Connecting | Ct_AddingScript | Ct_AddingUserScript

text \<open>
  Where \<^verbatim>\<open>render\<close>/\<^verbatim>\<open>renderImpl\<close> stands: not called, awaiting \<^verbatim>\<open>createTab\<close>, awaiting
  \<^verbatim>\<open>willTimeout(loadPage(), pageLoadTimeoutMillis)\<close>, awaiting \<^verbatim>\<open>readHtml\<close>, awaiting
  \<^verbatim>\<open>close\<close> in the \<^verbatim>\<open>finally\<close> block (with the exception of the \<^verbatim>\<open>try\<close> block, if
  any), returned with the result of \<^verbatim>\<open>getResult\<close>, or thrown.
\<close>

datatype RenderPc =
    Pc_Idle
  | Pc_CreatingTab CreateTabPc
  | Pc_LoadingPage
  | Pc_ReadingHtml
  | Pc_Closing "error option"
  | Pc_Returned RenderResult
  | Pc_Threw error

text \<open>
  Where \<^verbatim>\<open>loadPage\<close> stands. \<^verbatim>\<open>willTimeout\<close> does not cancel it: after the timer fired
  it goes on whenever what it awaits arrives.
\<close>

datatype LoadPagePc =
    Lp_NotStarted
  | Lp_Navigating
  | Lp_AwaitInitialRequest
  | Lp_AwaitTrigger
  | Lp_Returned
  | Lp_Threw

text \<open>
  The fields of \<^verbatim>\<open>TabRenderer\<close> that decide the result, and the two positions above.
  \<open>t_domListener\<close> tells whether the listener that sets \<^verbatim>\<open>_domContentLoaded\<close> is
  registered on the target's client. The option \<^verbatim>\<open>onInitialRequest\<close> is taken to be
  absent.
\<close>

record TabRenderer =
  t_options :: TabRenderOptionsInternal
  t_resolvedUrl :: "string option"
  t_domContentLoaded :: bool
  t_domListener :: bool
  t_requestWatcher :: RequestWatcher
  t_started :: bool
  t_completion :: "CompletionType option"
  t_html :: "string option"
  t_error :: "RenderError option"
  t_pc :: RenderPc
  t_loadPage :: LoadPagePc

definition TabRenderer_new :: "TabRenderOptions \<Rightarrow> TabRenderer" where
  "TabRenderer_new options =
     (let opts = \<lparr> allowPartialLoad = (case o_allowPartialLoad options of
                                           None \<Rightarrow> False | Some b \<Rightarrow> b),
                    pageLoadTimeoutMillis = (case o_pageLoadTimeoutMillis options of
                                               None \<Rightarrow> 10 * 1000 | Some v \<Rightarrow> v),
                    expectedStatusCodes = o_expectedStatusCodes options,
                    scriptToEvaluateOnNewDocument = o_scriptToEvaluateOnNewDocument options,
                    debug = (case o_debug options of None \<Rightarrow> False | Some b \<Rightarrow> b) \<rparr>
      in \<lparr> t_options = opts, t_resolvedUrl = None, t_domContentLoaded = False,
           t_domListener = False,
           t_requestWatcher = RequestWatcher_new (Some (\<not> debug opts)),
           t_started = False, t_completion = None, t_html = None, t_error = None,
           t_pc = Pc_Idle, t_loadPage = Lp_NotStarted \<rparr>)"

text \<open>
  \<^verbatim>\<open>getResult\<close>: status and headers are taken from the getter \<^verbatim>\<open>initialRequest\<close> of the
  watcher (which gives the record only when it is Loaded or Failed), and only when its
  \<^verbatim>\<open>responseReceivedAt\<close> is defined.
\<close>

definition getResult :: "TabRenderer \<Rightarrow> RenderResult" where
  "getResult t =
     (let requests = sort_key sentAt (map snd (p_requests (t_requestWatcher t)));
          with_response = (case initialRequest (t_requestWatcher t) of
                             None \<Rightarrow> None
                           | Some r \<Rightarrow> if responseReceivedAt r \<noteq> None then Some r else None);
          httpStatus = (case with_response of None \<Rightarrow> None | Some r \<Rightarrow> statusCode r);
          headers = (case with_response of None \<Rightarrow> None | Some r \<Rightarrow> headers r);
          dbg = (if debug (t_options t) then Some requests else None)
      in case t_error t of
           Some e \<Rightarrow>
             \<lparr> r_ok = False, r_type = Some (err_type e), r_message = Some (err_message e),
               r_httpStatus = httpStatus, r_headers = headers, r_resolvedUrl = None,
               r_completion = None, r_html = None, r_debug_requests = dbg \<rparr>
         | None \<Rightarrow>
             \<lparr> r_ok = True, r_type = None, r_message = None,
               r_httpStatus = httpStatus, r_headers = headers,
               r_resolvedUrl = t_resolvedUrl t, r_completion = t_completion t,
               r_html = t_html t, r_debug_requests = dbg \<rparr>)"

definition initialRequestStatusOk :: "TabRenderer \<Rightarrow> Request \<Rightarrow> bool" where
  "initialRequestStatusOk t request =
     (case expectedStatusCodes (t_options t) of
        None \<Rightarrow> True
      | Some codes \<Rightarrow> (case statusCode request of None \<Rightarrow> False | Some c \<Rightarrow> c \<in> set codes))"

text \<open>
  The start of the \<^verbatim>\<open>finally\<close> block: \<^verbatim>\<open>close()\<close> closes the dialog handler, the request
  watcher and the completion trigger at once, then awaits the closing of the client, the
  target and the browser context. \<open>pending\<close> is the exception of the \<^verbatim>\<open>try\<close> block.
\<close>

definition begin_close :: "error option \<Rightarrow> TabRenderer \<Rightarrow> TabRenderer" where
  "begin_close pending t =
     t \<lparr> t_requestWatcher := close_watcher (t_requestWatcher t), t_pc := Pc_Closing pending \<rparr>"

text \<open>
  \<^verbatim>\<open>renderImpl\<close> after \<^verbatim>\<open>await willTimeout(...)\<close> gave \<open>timeout\<close>: return on a recorded
  error; on a timeout record the error Timeout unless the DOM content was loaded and a
  partial load is allowed, in which case the completion becomes PageLoadTimeout; then
  start \<^verbatim>\<open>readHtml\<close>.
\<close>

definition after_load :: "bool \<Rightarrow> TabRenderer \<Rightarrow> TabRenderer" where
  "after_load timeout t =
     (if t_error t \<noteq> None then begin_close None t
      else if timeout then
        (if \<not> t_domContentLoaded t
         then begin_close None (t \<lparr> t_error := Some \<lparr> err_type = Timeout, err_message = Msg_null \<rparr> \<rparr>)
         else if \<not> allowPartialLoad (t_options t)
         then begin_close None (t \<lparr> t_error := Some \<lparr> err_type = Timeout, err_message = Msg_null \<rparr> \<rparr>)
         else t \<lparr> t_completion := Some PageLoadTimeout, t_pc := Pc_ReadingHtml \<rparr>)
      else t \<lparr> t_pc := Pc_ReadingHtml \<rparr>)"

text \<open>
  \<^verbatim>\<open>loadPage\<close> has returned or thrown: if \<^verbatim>\<open>renderImpl\<close> still awaits it, \<^verbatim>\<open>willTimeout\<close>
  gives false (a rejection that is not a \<^verbatim>\<open>TimeoutError\<close> also gives false).
\<close>

definition loadPage_done :: "LoadPagePc \<Rightarrow> TabRenderer \<Rightarrow> TabRenderer" where
  "loadPage_done lp t =
     (let t1 = t \<lparr> t_loadPage := lp \<rparr>
      in if t_pc t1 = Pc_LoadingPage then after_load False t1 else t1)"

text \<open>
  \<^verbatim>\<open>loadPage\<close> after \<^verbatim>\<open>await this._requestWatcher.initialRequestPromise\<close> gave \<open>request\<close>.
  The cancel token is \<^verbatim>\<open>this._error !== null\<close>; once true it stays true, as does the
  token's cache.
\<close>

definition loadPage_after_initial :: "Request \<Rightarrow> TabRenderer \<Rightarrow> TabRenderer" where
  "loadPage_after_initial request t =
     (if t_error t \<noteq> None then loadPage_done Lp_Returned t
      else
        let t1 = t \<lparr> t_resolvedUrl := Some (url request) \<rparr>
        in if readyState request \<noteq> Loaded
           then loadPage_done Lp_Returned
                  (t1 \<lparr> t_error := Some \<lparr> err_type = InitialRequestFailed,
                                           err_message = Msg_text (errorText request) \<rparr> \<rparr>)
           else if \<not> initialRequestStatusOk t1 request
           then loadPage_done Lp_Returned
                  (t1 \<lparr> t_error := Some \<lparr> err_type = InitialRequestStatus,
                                           err_message = Msg_unexpected_status (statusCode request) \<rparr> \<rparr>)
           else t1 \<lparr> t_loadPage := Lp_AwaitTrigger \<rparr>)"

text \<open>\<^verbatim>\<open>loadPage\<close> awaits the initial request: it goes on as soon as the promise is resolved.\<close>

definition loadPage_poll :: "TabRenderer \<Rightarrow> TabRenderer" where
  "loadPage_poll t =
     (if t_loadPage t = Lp_AwaitInitialRequest
      then (case p_initialRequestSource (t_requestWatcher t) of
              None \<Rightarrow> t
            | Some request \<Rightarrow> loadPage_after_initial request t)
      else t)"

text \<open>
  What happens during a render, one step at a time:
  \<^item> the awaits of \<^verbatim>\<open>createTab\<close> before the listeners are through: the dialog handler is
    initialised, the listener of \<^verbatim>\<open>domContentEventFired\<close> is registered, and the first
    \<^verbatim>\<open>Page.addScriptToEvaluateOnNewDocument\<close> is awaited;
  \<^item> a \<^verbatim>\<open>Page.addScriptToEvaluateOnNewDocument\<close> that \<^verbatim>\<open>createTab\<close> awaits resolves: after
    the first one the completion trigger is initialised and the request watcher watches
    the client, then the second one is awaited if the option is defined; else, and after
    the second one, \<^verbatim>\<open>createTab\<close> returns and \<^verbatim>\<open>renderImpl\<close> calls \<^verbatim>\<open>loadPage\<close>;
  \<^item> \<^verbatim>\<open>createTab\<close> catches an exception with the given message: what it awaits rejects,
    or \<^verbatim>\<open>completionTrigger.init\<close> throws when the first script was added;
  \<^item> the target's client emits a Network event;
  \<^item> the target's client emits \<^verbatim>\<open>Page.domContentEventFired\<close>;
  \<^item> \<^verbatim>\<open>Page.navigate\<close> resolves, or rejects with an error;
  \<^item> \<^verbatim>\<open>completionTrigger.wait()\<close> resolves with a completion type, or rejects;
  \<^item> the timer of \<^verbatim>\<open>willTimeout\<close> fires;
  \<^item> \<^verbatim>\<open>Runtime.evaluate\<close> of \<^verbatim>\<open>readHtml\<close> resolves with \<^verbatim>\<open>result.value\<close> (\<open>None\<close> for
    null or undefined), or rejects;
  \<^item> the awaits of \<^verbatim>\<open>close\<close> are through.
  Events of the client are taken to arrive until \<^verbatim>\<open>close\<close> is through.
\<close>

datatype RenderInput =
    In_clientReady
  | In_scriptAdded
  | In_tabCreationFailed string
  | In_network NetworkEvent
  | In_domContentEventFired
  | In_navigated "error option"
  | In_triggered "error + CompletionType"
  | In_pageLoadTimer
  | In_evaluated "error + string option"
  | In_closed

text \<open>\<^verbatim>\<open>render()\<close>: throws on a second call, else starts \<^verbatim>\<open>renderImpl\<close>, which awaits \<^verbatim>\<open>createTab\<close>.\<close>

definition render :: "TabRenderer \<Rightarrow> error + TabRenderer" where
  "render t =
     (if t_started t then Inl (LogicError ''Render may only be called once.'')
      else Inr (t \<lparr> t_started := True, t_pc := Pc_CreatingTab Ct_Connecting \<rparr>))"

definition watch_or_fail :: "TabRenderer \<Rightarrow> error + TabRenderer" where
  "watch_or_fail t =
     (case watch (t_requestWatcher t) of
        Inl e \<Rightarrow> Inl e
      | Inr w \<Rightarrow> Inr (t \<lparr> t_requestWatcher := w \<rparr>))"

definition tab_creation_failed :: "string option \<Rightarrow> TabRenderer \<Rightarrow> TabRenderer" where
  "tab_creation_failed message t =
     begin_close None
       (t \<lparr> t_error := Some \<lparr> err_type = TabCreationFailed, err_message = Msg_text message \<rparr> \<rparr>)"

text \<open>
  \<^verbatim>\<open>createTab\<close> returned without an error: \<^verbatim>\<open>renderImpl\<close> calls \<^verbatim>\<open>loadPage\<close>, which runs up
  to \<^verbatim>\<open>await Page.navigate\<close>, and awaits \<^verbatim>\<open>willTimeout\<close>.
\<close>

definition start_loadPage :: "TabRenderer \<Rightarrow> TabRenderer" where
  "start_loadPage t = t \<lparr> t_loadPage := Lp_Navigating, t_pc := Pc_LoadingPage \<rparr>"

fun render_step :: "RenderInput \<Rightarrow> TabRenderer \<Rightarrow> TabRenderer" where
  "render_step In_clientReady t =
     (case t_pc t of
        Pc_CreatingTab Ct_Connecting \<Rightarrow>
          t \<lparr> t_domListener := True, t_pc := Pc_CreatingTab Ct_AddingScript \<rparr>
      | _ \<Rightarrow> t)"
| "render_step In_scriptAdded t =
     (case t_pc t of
        Pc_CreatingTab Ct_AddingScript \<Rightarrow>
          (case watch_or_fail t of
             Inl e \<Rightarrow> tab_creation_failed (Some ''Invalid watcher state'') t
           | Inr t1 \<Rightarrow>
               if scriptToEvaluateOnNewDocument (t_options t1) \<noteq> None
               then t1 \<lparr> t_pc := Pc_CreatingTab Ct_AddingUserScript \<rparr>
               else start_loadPage t1)
      | Pc_CreatingTab Ct_AddingUserScript \<Rightarrow> start_loadPage t
      | _ \<Rightarrow> t)"
| "render_step (In_tabCreationFailed message) t =
     (case t_pc t of
        Pc_CreatingTab _ \<Rightarrow> tab_creation_failed (Some message) t
      | _ \<Rightarrow> t)"
| "render_step (In_network ev) t =
     (case t_pc t of
        Pc_Returned _ \<Rightarrow> t
      | Pc_Threw _ \<Rightarrow> t
      | _ \<Rightarrow> loadPage_poll (t \<lparr> t_requestWatcher := client_emit ev (t_requestWatcher t) \<rparr>))"
| "render_step In_domContentEventFired t =
     (case t_pc t of
        Pc_Returned _ \<Rightarrow> t
      | Pc_Threw _ \<Rightarrow> t
      | _ \<Rightarrow> if t_domListener t then t \<lparr> t_domContentLoaded := True \<rparr> else t)"
| "render_step (In_navigated failure) t =
     (case t_pc t of
        Pc_Returned _ \<Rightarrow> t
      | Pc_Threw _ \<Rightarrow> t
      | _ \<Rightarrow>
          if t_loadPage t = Lp_Navigating then
            (case failure of
               Some e \<Rightarrow> loadPage_done Lp_Threw t
             | None \<Rightarrow>
                 if t_error t \<noteq> None then loadPage_done Lp_Returned t
                 else loadPage_poll (t \<lparr> t_loadPage := Lp_AwaitInitialRequest \<rparr>))
          else t)"
| "render_step (In_triggered outcome) t =
     (case t_pc t of
        Pc_Returned _ \<Rightarrow> t
      | Pc_Threw _ \<Rightarrow> t
      | _ \<Rightarrow>
          if t_loadPage t = Lp_AwaitTrigger then
            (case outcome of
               Inl e \<Rightarrow> loadPage_done Lp_Threw t
             | Inr completion \<Rightarrow>
                 if t_error t \<noteq> None then loadPage_done Lp_Returned t
                 else loadPage_done Lp_Returned (t \<lparr> t_completion := Some completion \<rparr>))
          else t)"
| "render_step In_pageLoadTimer t =
     (if t_pc t = Pc_LoadingPage then after_load True t else t)"
| "render_step (In_evaluated outcome) t =
     (if t_pc t = Pc_ReadingHtml then
        (case outcome of
           Inl e \<Rightarrow> begin_close (Some e) t
         | Inr None \<Rightarrow> begin_close (Some (Error ''Unable to read HTML from page.'')) t
         | Inr (Some html) \<Rightarrow> begin_close None (t \<lparr> t_html := Some html \<rparr>))
      else t)"
| "render_step In_closed t =
     (case t_pc t of
        Pc_Closing None \<Rightarrow> t \<lparr> t_pc := Pc_Returned (getResult t) \<rparr>
      | Pc_Closing (Some e) \<Rightarrow> t \<lparr> t_pc := Pc_Threw e \<rparr>
      | _ \<Rightarrow> t)"

definition render_run :: "RenderInput list \<Rightarrow> TabRenderer \<Rightarrow> TabRenderer" where
  "render_run ins t = fold render_step ins t"

text \<open>
  The renderer after \<^verbatim>\<open>render()\<close> was called on a new \<^verbatim>\<open>TabRenderer\<close> and the given
  inputs arrived.
\<close>

definition rendering :: "TabRenderOptions \<Rightarrow> RenderInput list \<Rightarrow> TabRenderer" where
  "rendering options ins =
     render_run ins
       ((TabRenderer_new options) \<lparr> t_started := True, t_pc := Pc_CreatingTab Ct_Connecting \<rparr>)"

text \<open>What \<^verbatim>\<open>render()\<close> has returned or thrown, if it is through.\<close>

definition render_result :: "TabRenderer \<Rightarrow> (error + RenderResult) option" where
  "render_result t =
     (case t_pc t of Pc_Returned r \<Rightarrow> Some (Inr r) | Pc_Threw e \<Rightarrow> Some (Inl e) | _ \<Rightarrow> None)"

section \<open>Dialog handler (src/render/browser.ts)\<close>

datatype DialogHandlerStatus = DH_Initial | DH_Running | DH_Stopped

text \<open>
  The two closures of \<^verbatim>\<open>_handlers\<close>, registered under \<^verbatim>\<open>Page.javascriptDialogOpening\<close>
  and \<^verbatim>\<open>Page.javascriptDialogClosed\<close>.
\<close>

datatype DialogListener = OnDialogOpened | OnDialogClosed

text \<open>
  The fields of class \<^verbatim>\<open>DialogHandler\<close>: whether \<^verbatim>\<open>_client\<close> is set, the keys of
  \<^verbatim>\<open>_magicDialogs\<close> and \<^verbatim>\<open>_status\<close>. The listener table of the CDP client is passed
  to \<^verbatim>\<open>init\<close> and \<^verbatim>\<open>close\<close> and returned by them.
\<close>

record DialogHandler =
  dh_client :: bool
  dh_magicDialogs :: "string list"
  dh_status :: DialogHandlerStatus

definition DialogHandler_new :: DialogHandler where
  "DialogHandler_new = \<lparr> dh_client = False, dh_magicDialogs = [], dh_status = DH_Initial \<rparr>"

definition dialog_handlers :: "(string \<times> DialogListener) list" where
  "dialog_handlers = [(''Page.javascriptDialogOpening'', OnDialogOpened),
                      (''Page.javascriptDialogClosed'', OnDialogClosed)]"

text \<open>
  \<^verbatim>\<open>init(client)\<close>: throws unless the status is Initial, stores the client and registers
  both handlers. It does not assign \<^verbatim>\<open>_status\<close>.
\<close>

definition DialogHandler_init ::
  "DialogListener EventEmitter \<Rightarrow> DialogHandler \<Rightarrow> error + DialogHandler \<times> DialogListener EventEmitter" where
  "DialogHandler_init client h =
     (if dh_status h \<noteq> DH_Initial then Inl (LogicError ''Cannot start dialog handler'')
      else Inr (h \<lparr> dh_client := True \<rparr>,
                fold (\<lambda>(key, handler). addListener key handler) dialog_handlers client))"

text \<open>
  \<^verbatim>\<open>close()\<close>: in status Initial it only sets the status to Stopped and returns; in status
  Stopped it returns; otherwise it removes both listeners from the client (when there is
  one), forgets the client, clears the magic dialogs and sets the status to Stopped.
\<close>

definition DialogHandler_close ::
  "DialogHandler \<Rightarrow> DialogListener EventEmitter \<Rightarrow> DialogHandler \<times> DialogListener EventEmitter" where
  "DialogHandler_close h client =
     (if dh_status h = DH_Initial then (h \<lparr> dh_status := DH_Stopped \<rparr>, client)
      else if dh_status h = DH_Stopped then (h, client)
      else
        let client1 = (if dh_client h
                       then fold (\<lambda>(key, handler). removeListener key handler) dialog_handlers client
                       else client)
        in (h \<lparr> dh_client := False, dh_magicDialogs := [], dh_status := DH_Stopped \<rparr>, client1))"

section \<open>Browser process (src/browser/process.ts)\<close>

datatype BrowserProcessStatus =
  BP_Initial | BP_Starting | BP_Running | BP_Stopping | BP_Stopped | BP_Faulted

datatype BrowserProcessStopReason = Stop_Requested | Stop_Faulted

datatype BrowserProcessStartReason = Start_Requested | Start_AutoRestart

text \<open>The events a \<^verbatim>\<open>BrowserProcess\<close> emits, with the reason they carry.\<close>

datatype BrowserProcessEvent =
    Ev_starting BrowserProcessStartReason
  | Ev_start BrowserProcessStartReason
  | Ev_fault
  | Ev_stopping BrowserProcessStopReason
  | Ev_stop BrowserProcessStopReason

text \<open>
  The fields of class \<^verbatim>\<open>BrowserProcess\<close>. \<open>bp_process\<close> is the pid of the spawned child,
  \<open>bp_client\<close> tells whether a CDP client is held, \<open>bp_browserInfo\<close> whether browser info
  is cached, \<open>bp_restartTimeout\<close> whether a restart timer is pending,
  \<open>bp_stopGuard\<close> whether \<^verbatim>\<open>_stopReentrancyGuard\<close> holds a promise. \<open>bp_emitted\<close> logs every
  emitted event with the status a listener reads at that moment; listeners themselves are
  not modelled.
\<close>

record BrowserProcess =
  bp_process :: "nat option"
  bp_status :: BrowserProcessStatus
  bp_stopReason :: "BrowserProcessStopReason option"
  bp_restartTimeout :: bool
  bp_browserInfo :: bool
  bp_version :: nat
  bp_client :: bool
  bp_stopGuard :: bool
  bp_startCounter :: nat
  bp_emitted :: "(BrowserProcessEvent \<times> BrowserProcessStatus) list"

definition BrowserProcess_new :: BrowserProcess where
  "BrowserProcess_new =
     \<lparr> bp_process = None, bp_status = BP_Initial, bp_stopReason = None,
       bp_restartTimeout = False, bp_browserInfo = False, bp_version = 0, bp_client = False,
       bp_stopGuard = False, bp_startCounter = 0, bp_emitted = [] \<rparr>"

definition emit_process :: "BrowserProcessEvent \<Rightarrow> BrowserProcess \<Rightarrow> BrowserProcess" where
  "emit_process e p = p \<lparr> bp_emitted := bp_emitted p @ [(e, bp_status p)] \<rparr>"

text \<open>
  \<^verbatim>\<open>startImpl\<close> up to the point where it spawns the browser: return at once when Running,
  throw unless Initial or Stopped, then enter Starting, reset the stop reason, clear the
  restart timer, bump the version and the start counter and emit \<^verbatim>\<open>starting\<close>.
\<close>

definition startImpl_enter :: "BrowserProcessStartReason \<Rightarrow> BrowserProcess \<Rightarrow> error + BrowserProcess" where
  "startImpl_enter reason p =
     (if bp_status p = BP_Running then Inr p
      else if bp_status p \<noteq> BP_Initial \<and> bp_status p \<noteq> BP_Stopped
      then Inl (LogicError ''Invalid status'')
      else Inr (emit_process (Ev_starting reason)
                  (p \<lparr> bp_status := BP_Starting, bp_stopReason := None,
                       bp_restartTimeout := False, bp_version := bp_version p + 1,
                       bp_startCounter := bp_startCounter p + 1 \<rparr>)))"

text \<open>
  The body \<^verbatim>\<open>stopImpl\<close> passes to the reentrancy guard. It returns the version, or \<open>None\<close>
  while it waits for \<^verbatim>\<open>client.close()\<close> or \<^verbatim>\<open>killProcess\<close>, which happens only when a
  client or a child process was held. \<open>stop_finish\<close> is the part after those waits.
\<close>

definition stop_finish :: "BrowserProcess \<Rightarrow> BrowserProcess" where
  "stop_finish p = p \<lparr> bp_status := BP_Stopped, bp_stopGuard := False \<rparr>"

definition stop_body :: "BrowserProcessStopReason \<Rightarrow> BrowserProcess \<Rightarrow> nat option \<times> BrowserProcess" where
  "stop_body reason p =
     (if bp_status p = BP_Stopped then (Some (bp_version p), p)
      else
        let p1 = emit_process (Ev_stopping reason)
                   (p \<lparr> bp_status := BP_Stopping, bp_stopReason := Some reason \<rparr>);
            process = bp_process p1;
            client = bp_client p1;
            version = bp_version p1 + 1;
            p2 = p1 \<lparr> bp_version := version, bp_process := None, bp_client := False,
                      bp_browserInfo := False, bp_restartTimeout := False \<rparr>
        in if client then (None, p2)
           else if process \<noteq> None then (None, p2)
           else (Some version, stop_finish p2))"

text \<open>
  \<^verbatim>\<open>stopImpl\<close>, for a call that finds the guard free: the guard takes the promise, the body
  runs, and when the body has returned the guard is released and the first caller emits
  \<^verbatim>\<open>stop\<close>. The result is the version \<^verbatim>\<open>stopImpl\<close> returns, or \<open>None\<close> when the call is
  still waiting (for the body's cleanup, or as a follower of a stop in progress).
\<close>

definition stopImpl :: "BrowserProcessStopReason \<Rightarrow> BrowserProcess \<Rightarrow> nat option \<times> BrowserProcess" where
  "stopImpl reason p =
     (if bp_stopGuard p then (None, p)
      else
        case stop_body reason (p \<lparr> bp_stopGuard := True \<rparr>) of
          (None, p1) \<Rightarrow> (None, p1)
        | (Some version, p1) \<Rightarrow>
            (Some version, emit_process (Ev_stop reason) (p1 \<lparr> bp_stopGuard := False \<rparr>)))"

text \<open>The public \<^verbatim>\<open>stop()\<close> and \<^verbatim>\<open>start()\<close>.\<close>

definition stop :: "BrowserProcess \<Rightarrow> nat option \<times> BrowserProcess" where
  "stop p = stopImpl Stop_Requested p"

definition start_enter :: "BrowserProcess \<Rightarrow> error + BrowserProcess" where
  "start_enter p = startImpl_enter Start_Requested p"

section \<open>Browser supervisor (src/browser/providers/supervisor.ts)\<close>

datatype BrowserProviderStatus = PS_Initial | PS_Starting | PS_Running | PS_Closing | PS_Closed

datatype BrowserInstanceRole = Main | Standby

datatype BrowserRecycleResult = Recycled | Canceled | StandbyUnavailable

datatype BrowserSupervisorTakeoverReason = Takeover_Recycle | Takeover_Fault

datatype BrowserSupervisorEvent =
    Ev_takeover BrowserSupervisorTakeoverReason
  | Ev_recycle BrowserRecycleResult

text \<open>
  \<^verbatim>\<open>BrowserSupervisorOptions\<close> (every property optional) and
  \<^verbatim>\<open>BrowserSupervisorOptionsInternal\<close>, without the logger and the browser's path and
  arguments.
\<close>

record BrowserSupervisorOptions =
  o_debuggingPort1 :: "nat option"
  o_debuggingPort2 :: "nat option"
  o_autoRecycle :: "bool option"
  o_autoRecycleAfterUptimeMillis :: "int option"
  o_autoRecycleRetryAfterMillis :: "int option"
  o_recycleDrainMillis :: "int option"

record BrowserSupervisorOptionsInternal =
  debuggingPort1 :: nat
  debuggingPort2 :: nat
  autoRecycle :: bool
  autoRecycleAfterUptimeMillis :: int
  autoRecycleRetryAfterMillis :: int
  recycleDrainMillis :: int

text \<open>\<^verbatim>\<open>defaults.browser.provider.internal\<close> (src/defaults.ts).\<close>

definition defaults_internal :: BrowserSupervisorOptionsInternal where
  "defaults_internal =
     \<lparr> debuggingPort1 = 9222, debuggingPort2 = 9223, autoRecycle = True,
       autoRecycleAfterUptimeMillis = 30 * 60 * 1000,
       autoRecycleRetryAfterMillis = 10 * 1000,
       recycleDrainMillis = 60 * 1000 \<rparr>"

text \<open>
  The options object the constructor builds: \<^verbatim>\<open>{...options, key: options.key ?? default}\<close>
  for each key. For \<^verbatim>\<open>autoRecycleRetryAfterMillis\<close> the source reads
  \<^verbatim>\<open>options.autoRecycleAfterUptimeMillis ?? defaults...autoRecycleRetryAfterMillis\<close>.
\<close>

definition internal_options :: "BrowserSupervisorOptions \<Rightarrow> BrowserSupervisorOptionsInternal" where
  "internal_options options =
     \<lparr> debuggingPort1 = (case o_debuggingPort1 options of
                            None \<Rightarrow> debuggingPort1 defaults_internal | Some v \<Rightarrow> v),
       debuggingPort2 = (case o_debuggingPort2 options of
                            None \<Rightarrow> debuggingPort2 defaults_internal | Some v \<Rightarrow> v),
       autoRecycle = (case o_autoRecycle options of None \<Rightarrow> True | Some v \<Rightarrow> v),
       autoRecycleAfterUptimeMillis =
         (case o_autoRecycleAfterUptimeMillis options of
            None \<Rightarrow> autoRecycleAfterUptimeMillis defaults_internal | Some v \<Rightarrow> v),
       autoRecycleRetryAfterMillis =
         (case o_autoRecycleAfterUptimeMillis options of
            None \<Rightarrow> autoRecycleRetryAfterMillis defaults_internal | Some v \<Rightarrow> v),
       recycleDrainMillis = (case o_recycleDrainMillis options of
                               None \<Rightarrow> recycleDrainMillis defaults_internal | Some v \<Rightarrow> v) \<rparr>"

text \<open>
  What the supervisor reads of a \<^verbatim>\<open>BrowserInstance\<close>: its process's port and status, its
  role, the number of open handles and the reading of the main-uptime stopwatch.
\<close>

record BrowserInstance =
  bi_port :: nat
  bi_role :: "BrowserInstanceRole option"
  bi_processStatus :: BrowserProcessStatus
  bi_handles :: nat
  bi_mainUptimeMillis :: int

text \<open>
  The two instance objects are created once; \<^verbatim>\<open>_instances\<close> holds references to them in
  the order main, standby. \<open>InstanceRef\<close> names an object, \<open>sv_swapped\<close> tells whether
  \<^verbatim>\<open>_instances\<close> is in the order of creation or swapped.
\<close>

datatype InstanceRef = First | Second

text \<open>
  One invocation of \<^verbatim>\<open>recycleMain\<close>: the promise and the flag \<^verbatim>\<open>first\<close> it got from the
  guard, what it returned or threw once resumed, and the events it emitted.
\<close>

record Invocation =
  inv_promise :: nat
  inv_first :: bool
  inv_result :: "(error + BrowserRecycleResult) option"
  inv_emitted :: "BrowserSupervisorEvent list"

text \<open>
  Where the recycle body (the function \<^verbatim>\<open>recycleMain\<close> passes to the guard) stands: not
  running, at one of its three awaits with the instance it captured as \<^verbatim>\<open>standby\<close>, or
  returned (thrown) with the callbacks of \<^verbatim>\<open>ReentrancyGuard.run\<close> still to run.
\<close>

datatype RecycleBody =
    Body_None
  | Body_Draining InstanceRef
  | Body_Stopping InstanceRef
  | Body_Starting InstanceRef
  | Body_Returned "error + BrowserRecycleResult"

text \<open>
  The supervisor. \<open>sv_recycleTimeout\<close> is the delay of the pending auto-recycle timer, if
  one is pending. \<open>sv_recycleGuard\<close> is \<^verbatim>\<open>_recycleReentrancyGuard._promise\<close>; promises are
  numbered in the order of creation and \<open>sv_promises\<close> holds their state (\<open>None\<close> pending).
  \<open>sv_calls\<close> are the invocations of \<^verbatim>\<open>recycleMain\<close> so far, \<open>sv_bodyRuns\<close> counts the
  executions of the recycle body, \<open>sv_emitted\<close> logs the supervisor's events.
\<close>

record BrowserSupervisor =
  sv_options :: BrowserSupervisorOptionsInternal
  sv_first :: BrowserInstance
  sv_second :: BrowserInstance
  sv_swapped :: bool
  sv_status :: BrowserProviderStatus
  sv_recycleTimeout :: "int option"
  sv_recycleGuard :: "nat option"
  sv_promises :: "(error + BrowserRecycleResult) option list"
  sv_body :: RecycleBody
  sv_calls :: "Invocation list"
  sv_bodyRuns :: nat
  sv_emitted :: "BrowserSupervisorEvent list"

definition new_instance :: "nat \<Rightarrow> BrowserInstance" where
  "new_instance port =
     \<lparr> bi_port = port, bi_role = None, bi_processStatus = BP_Initial, bi_handles = 0,
       bi_mainUptimeMillis = 0 \<rparr>"

definition BrowserSupervisor_new :: "BrowserSupervisorOptions \<Rightarrow> BrowserSupervisor" where
  "BrowserSupervisor_new options =
     (let opts = internal_options options
      in \<lparr> sv_options = opts,
           sv_first = (new_instance (debuggingPort1 opts)) \<lparr> bi_role := Some Main \<rparr>,
           sv_second = (new_instance (debuggingPort2 opts)) \<lparr> bi_role := Some Standby \<rparr>,
           sv_swapped = False, sv_status = PS_Initial, sv_recycleTimeout = None,
           sv_recycleGuard = None, sv_promises = [], sv_body = Body_None, sv_calls = [],
           sv_bodyRuns = 0, sv_emitted = [] \<rparr>)"

definition instance_of :: "InstanceRef \<Rightarrow> BrowserSupervisor \<Rightarrow> BrowserInstance" where
  "instance_of r s = (case r of First \<Rightarrow> sv_first s | Second \<Rightarrow> sv_second s)"

definition update_instance ::
  "InstanceRef \<Rightarrow> (BrowserInstance \<Rightarrow> BrowserInstance) \<Rightarrow> BrowserSupervisor \<Rightarrow> BrowserSupervisor" where
  "update_instance r f s =
     (case r of First \<Rightarrow> s \<lparr> sv_first := f (sv_first s) \<rparr>
              | Second \<Rightarrow> s \<lparr> sv_second := f (sv_second s) \<rparr>)"

text \<open>The getters \<^verbatim>\<open>main\<close> and \<^verbatim>\<open>standby\<close>: \<^verbatim>\<open>_instances[0]\<close> and \<^verbatim>\<open>_instances[1]\<close>.\<close>

definition main_ref :: "BrowserSupervisor \<Rightarrow> InstanceRef" where
  "main_ref s = (if sv_swapped s then Second else First)"

definition standby_ref :: "BrowserSupervisor \<Rightarrow> InstanceRef" where
  "standby_ref s = (if sv_swapped s then First else Second)"

definition emit_supervisor :: "BrowserSupervisorEvent \<Rightarrow> BrowserSupervisor \<Rightarrow> BrowserSupervisor" where
  "emit_supervisor e s = s \<lparr> sv_emitted := sv_emitted s @ [e] \<rparr>"

text \<open>
  \<^verbatim>\<open>scheduleMainRecycle(timeoutMillis?)\<close>: nothing unless Running, auto-recycling and no
  recycle in flight; otherwise the pending timer is replaced by one with the given delay,
  or with \<^verbatim>\<open>max(autoRecycleAfterUptimeMillis - main.mainUptimeMillis, 0)\<close>.
\<close>

definition scheduleMainRecycle :: "int option \<Rightarrow> BrowserSupervisor \<Rightarrow> BrowserSupervisor" where
  "scheduleMainRecycle timeoutMillis s =
     (if sv_status s \<noteq> PS_Running then s
      else if \<not> autoRecycle (sv_options s) then s
      else if sv_recycleGuard s \<noteq> None then s
      else
        let t = (case timeoutMillis of
                   Some t \<Rightarrow> t
                 | None \<Rightarrow> max (autoRecycleAfterUptimeMillis (sv_options s)
                                 - bi_mainUptimeMillis (instance_of (main_ref s) s)) 0)
        in s \<lparr> sv_recycleTimeout := Some t \<rparr>)"

text \<open>
  The timer's callback after \<^verbatim>\<open>await this.recycleMain()\<close> has given \<open>result\<close> (the timer
  has fired, so none is pending).
\<close>

definition recycle_timer_continuation :: "BrowserRecycleResult \<Rightarrow> BrowserSupervisor \<Rightarrow> BrowserSupervisor" where
  "recycle_timer_continuation result s =
     (if sv_status s \<noteq> PS_Running then s
      else case result of
             StandbyUnavailable \<Rightarrow>
               scheduleMainRecycle (Some (autoRecycleRetryAfterMillis (sv_options s))) s
           | Canceled \<Rightarrow> scheduleMainRecycle None s
           | Recycled \<Rightarrow> scheduleMainRecycle None s)"

text \<open>
  \<^verbatim>\<open>promoteStandbyToMain\<close>: swap the two positions, mark the roles, emit \<^verbatim>\<open>takeover\<close>.
  The instances' own events \<^verbatim>\<open>main\<close> and \<^verbatim>\<open>standby\<close> are not logged.
\<close>

definition promoteStandbyToMain :: "BrowserSupervisorTakeoverReason \<Rightarrow> BrowserSupervisor \<Rightarrow> BrowserSupervisor" where
  "promoteStandbyToMain reason s =
     (let s1 = s \<lparr> sv_swapped := \<not> sv_swapped s \<rparr>;
          s2 = update_instance (main_ref s1) (\<lambda>i. i \<lparr> bi_role := Some Main \<rparr>) s1;
          s3 = update_instance (standby_ref s2) (\<lambda>i. i \<lparr> bi_role := Some Standby \<rparr>) s2
      in emit_supervisor (Ev_takeover reason) s3)"

text \<open>
  The recycle body, cut at its awaits. Each part runs from where the body stands to the
  next await or to the return, and leaves the new position in \<open>sv_body\<close>.
\<close>

definition body_after_start :: "InstanceRef \<Rightarrow> BrowserSupervisor \<Rightarrow> BrowserSupervisor" where
  "body_after_start standby s = s \<lparr> sv_body := Body_Returned (Inr Recycled) \<rparr>"

definition body_after_stop :: "InstanceRef \<Rightarrow> BrowserSupervisor \<Rightarrow> BrowserSupervisor" where
  "body_after_stop standby s =
     (if sv_status s \<noteq> PS_Running then s \<lparr> sv_body := Body_Returned (Inr Canceled) \<rparr>
      else if bi_processStatus (instance_of standby s) \<noteq> BP_Stopped
      then s \<lparr> sv_body := Body_Returned (Inr Canceled) \<rparr>
      else s \<lparr> sv_body := Body_Starting standby \<rparr>)"

definition body_after_drain :: "InstanceRef \<Rightarrow> BrowserSupervisor \<Rightarrow> BrowserSupervisor" where
  "body_after_drain standby s =
     (if sv_status s \<noteq> PS_Running then s \<lparr> sv_body := Body_Returned (Inr Canceled) \<rparr>
      else if bi_role (instance_of standby s) \<noteq> Some Standby
      then s \<lparr> sv_body := Body_Returned (Inr StandbyUnavailable) \<rparr>
      else if bi_processStatus (instance_of standby s) \<noteq> BP_Running
      then s \<lparr> sv_body := Body_Returned (Inr Canceled) \<rparr>
      else s \<lparr> sv_body := Body_Stopping standby \<rparr>)"

definition body_start :: "BrowserSupervisor \<Rightarrow> BrowserSupervisor" where
  "body_start s =
     (if sv_status s \<noteq> PS_Running
      then s \<lparr> sv_body := Body_Returned (Inl (LogicError ''Invalid status'')) \<rparr>
      else if bi_processStatus (instance_of (standby_ref s) s) \<noteq> BP_Running
      then s \<lparr> sv_body := Body_Returned (Inr StandbyUnavailable) \<rparr>
      else
        let s1 = promoteStandbyToMain Takeover_Recycle s
        in if sv_status s1 \<noteq> PS_Running then s1 \<lparr> sv_body := Body_Returned (Inr Canceled) \<rparr>
           else
             let standby = standby_ref s1
             in if bi_handles (instance_of standby s1) > 0
                then s1 \<lparr> sv_body := Body_Draining standby \<rparr>
                else body_after_drain standby s1)"



definition body_awaited :: "error option \<Rightarrow> BrowserSupervisor \<Rightarrow> BrowserSupervisor" where
  "body_awaited failure s =
     (case sv_body s of
        Body_Draining standby \<Rightarrow>
          (case failure of Some e \<Rightarrow> s \<lparr> sv_body := Body_Returned (Inl e) \<rparr>
                         | None \<Rightarrow> body_after_drain standby s)
      | Body_Stopping standby \<Rightarrow>
          (case failure of Some e \<Rightarrow> s \<lparr> sv_body := Body_Returned (Inl e) \<rparr>
                         | None \<Rightarrow> body_after_stop standby s)
      | Body_Starting standby \<Rightarrow>
          (case failure of Some e \<Rightarrow> s \<lparr> sv_body := Body_Returned (Inl e) \<rparr>
                         | None \<Rightarrow> body_after_start standby s)
      | _ \<Rightarrow> s)"





section \<open>Notions used to state the watcher's properties\<close>

text \<open>A \<^verbatim>\<open>requestWillBeSent\<close> event that carries no \<^verbatim>\<open>redirectResponse\<close>.\<close>

fun nonRedirectRequest :: "NetworkEvent \<Rightarrow> bool" where
  "nonRedirectRequest (RequestWillBeSent _ _ _ None) = True"
| "nonRedirectRequest _ = False"

text \<open>The listener \<^verbatim>\<open>watch\<close> registers for an event, and the event name of a listener.\<close>

fun handler_of :: "NetworkEvent \<Rightarrow> WatcherHandler" where
  "handler_of (RequestWillBeSent _ _ _ _) = OnHttpRequest"
| "handler_of (ResponseReceived _ _ _) = OnHttpResponse"
| "handler_of (LoadingFinished _ _) = OnHttpFinished"
| "handler_of (LoadingFailed _ _ _) = OnHttpFailed"

fun name_of :: "WatcherHandler \<Rightarrow> string" where
  "name_of OnHttpRequest = ''Network.requestWillBeSent''"
| "name_of OnHttpResponse = ''Network.responseReceived''"
| "name_of OnHttpFinished = ''Network.loadingFinished''"
| "name_of OnHttpFailed = ''Network.loadingFailed''"

text \<open>A listener of the watcher is registered on the client.\<close>

definition subscribed :: "WatcherHandler \<Rightarrow> RequestWatcher \<Rightarrow> bool" where
  "subscribed h w \<longleftrightarrow> h \<in> set (map snd (client_listeners w))"

text \<open>
  An event pertains to the initial request when it carries the initial request's id and is
  not a redirect notification. For the \<^verbatim>\<open>requestWillBeSent\<close> event that makes a request
  the initial one, this is read in the state after the event.
\<close>

definition pertains_to_initial :: "RequestWatcher \<Rightarrow> NetworkEvent \<Rightarrow> bool" where
  "pertains_to_initial w ev \<longleftrightarrow>
     p_initialRequest w = Some (requestId ev)
     \<and> (case ev of RequestWillBeSent _ _ _ (Some _) \<Rightarrow> False | _ \<Rightarrow> True)"

text \<open>The listener table \<^verbatim>\<open>watch\<close> builds on a client without other listeners.\<close>

definition table0 :: "WatcherHandler EventEmitter" where
  "table0 = [(''Network.requestWillBeSent'', OnHttpRequest),
             (''Network.responseReceived'', OnHttpResponse),
             (''Network.loadingFinished'', OnHttpFinished),
             (''Network.loadingFailed'', OnHttpFailed)]"

text \<open>
  Invariants of a running watcher. \<open>subs_inv A\<close>: exactly the listeners in \<open>A\<close> are still
  registered, and \<^verbatim>\<open>_clientSubs\<close> agrees with the client's table. \<open>only_inv\<close>: in
  only-initial mode the map holds no record but the initial request's, and the
  \<^verbatim>\<open>requestWillBeSent\<close> listener is gone once there is one. \<open>records_keyed\<close>: every record
  is stored under its own id, and the initial request's record is in the map.
\<close>

definition subs_inv :: "WatcherHandler set \<Rightarrow> RequestWatcher \<Rightarrow> bool" where
  "subs_inv A w \<longleftrightarrow>
     client_listeners w = filter (\<lambda>p. snd p \<in> A) table0
     \<and> (\<forall>h. p_clientSubs w h = Some (if h \<in> A then Some (name_of h, h) else None))"

definition only_inv :: "RequestWatcher \<Rightarrow> bool" where
  "only_inv w \<longleftrightarrow>
     p_onlyInitial w
     \<and> (case p_initialRequest w of
          None \<Rightarrow> p_requests w = []
        | Some k \<Rightarrow> map fst (p_requests w) = [k] \<and> \<not> subscribed OnHttpRequest w)"

definition records_keyed :: "RequestWatcher \<Rightarrow> bool" where
  "records_keyed w \<longleftrightarrow>
     (\<forall>k r. map_of (p_requests w) k = Some r \<longrightarrow> id' r = k)
     \<and> (\<forall>k. p_initialRequest w = Some k \<longrightarrow> map_of (p_requests w) k \<noteq> None)"



section \<open>Notions used to state the supervisor's properties\<close>

text \<open>
  \<open>count_first\<close> counts the invocations that got \<^verbatim>\<open>first: true\<close>; \<open>expected_emitted\<close> is
  what an invocation has emitted given what it returned; \<open>flights_inv\<close> is the invariant
  of the guard, the promises and the invocations: the guard holds a promise exactly while
  the body runs, that promise is the newest and pending, every other promise is settled,
  every run of the body has one first invocation, an invocation's promise is the one of
  the latest run that started before it, an invocation returns what its promise settled
  with, and the \<^verbatim>\<open>recycle\<close> events in the log are those the invocations emitted.
\<close>

fun is_recycle :: "BrowserSupervisorEvent \<Rightarrow> bool" where
  "is_recycle (Ev_recycle _) = True"
| "is_recycle _ = False"

definition count_first :: "Invocation list \<Rightarrow> nat" where
  "count_first cs = length (filter (\<lambda>b. b) (map inv_first cs))"



text \<open>
  Example values: the options object \<^verbatim>\<open>{}\<close>, and a running supervisor with both
  processes as given (the first instance's process in the given status, roles swapped or
  not).
\<close>

definition no_options :: BrowserSupervisorOptions where
  "no_options = \<lparr> o_debuggingPort1 = None, o_debuggingPort2 = None, o_autoRecycle = None,
     o_autoRecycleAfterUptimeMillis = None, o_autoRecycleRetryAfterMillis = None,
     o_recycleDrainMillis = None \<rparr>"


section \<open>Notions used to state the renderer's properties\<close>

text \<open>
  \<open>response_inv\<close>: a record in state Response or Loaded has \<^verbatim>\<open>responseReceivedAt\<close>, and a
  record with \<^verbatim>\<open>responseReceivedAt\<close> has a status code and headers.
  \<open>initial_done_with_response\<close>: the initial request's record is Loaded, or Failed after a
  response was received. \<open>initial_reached_response\<close>: the initial request's record reached
  at least Response, that is, a response was received for it.
\<close>

definition response_inv :: "RequestWatcher \<Rightarrow> bool" where
  "response_inv w \<longleftrightarrow>
     (\<forall>k r. map_of (p_requests w) k = Some r \<longrightarrow>
        (readyState r = Response \<or> readyState r = Loaded \<longrightarrow> responseReceivedAt r \<noteq> None)
      \<and> (responseReceivedAt r \<noteq> None \<longrightarrow> statusCode r \<noteq> None \<and> headers r \<noteq> None))"

definition initial_done_with_response :: "RequestWatcher \<Rightarrow> bool" where
  "initial_done_with_response w =
     (case p_initialRequest w of
        None \<Rightarrow> False
      | Some k \<Rightarrow>
          (case map_of (p_requests w) k of
             None \<Rightarrow> False
           | Some r \<Rightarrow> readyState r = Loaded \<or> (readyState r = Failed \<and> responseReceivedAt r \<noteq> None)))"

definition initial_reached_response :: "RequestWatcher \<Rightarrow> bool" where
  "initial_reached_response w =
     (case p_initialRequest w of
        None \<Rightarrow> False
      | Some k \<Rightarrow>
          (case map_of (p_requests w) k of
             None \<Rightarrow> False
           | Some r \<Rightarrow> readyState r = Response \<or> readyState r = Loaded
                        \<or> (readyState r = Failed \<and> responseReceivedAt r \<noteq> None)))"

text \<open>
  Invariants of a render: \<open>render_inv\<close> (the watcher's records are well formed and a
  returned result is \<^verbatim>\<open>getResult\<close> of the final state), \<open>running_inv\<close> (the same while
  \<^verbatim>\<open>render\<close> has not returned) and \<open>load_inv\<close> (while the tab is created no error is
  recorded and \<^verbatim>\<open>loadPage\<close> is not called; while the page-load phase is awaited no error
  is recorded and \<^verbatim>\<open>loadPage\<close> has not returned).
\<close>

definition not_returned :: "RenderPc \<Rightarrow> bool" where
  "not_returned pc = (case pc of Pc_Returned _ \<Rightarrow> False | _ \<Rightarrow> True)"

definition running_inv :: "TabRenderer \<Rightarrow> bool" where
  "running_inv t \<longleftrightarrow> response_inv (t_requestWatcher t) \<and> not_returned (t_pc t)"

definition render_inv :: "TabRenderer \<Rightarrow> bool" where
  "render_inv t \<longleftrightarrow>
     response_inv (t_requestWatcher t) \<and> (\<forall>r. t_pc t = Pc_Returned r \<longrightarrow> r = getResult t)"

fun creating :: "RenderPc \<Rightarrow> bool" where
  "creating (Pc_CreatingTab _) = True"
| "creating _ = False"

definition load_inv :: "TabRenderer \<Rightarrow> bool" where
  "load_inv t \<longleftrightarrow>
     (creating (t_pc t) \<longrightarrow> t_error t = None \<and> t_loadPage t = Lp_NotStarted)
   \<and> (t_pc t = Pc_LoadingPage \<longrightarrow> t_error t = None \<and> t_loadPage t \<noteq> Lp_Returned)"

text \<open>
  After the page-load phase: \<^verbatim>\<open>renderImpl\<close> reads the HTML or closes, or \<^verbatim>\<open>render\<close> is
  through. \<open>partial_load_inv S t\<close> is the invariant of that time when the timer fired on
  a partial load, \<open>S\<close> being the inputs that arrived since: while \<^verbatim>\<open>loadPage\<close> (which
  the timeout does not cancel) has not returned, no error is recorded and the completion
  is PageLoadTimeout; once it has returned, it has recorded an error of the initial
  request, or stored the completion type the trigger resolved with.
\<close>

fun after_loading :: "RenderPc \<Rightarrow> bool" where
  "after_loading Pc_ReadingHtml = True"
| "after_loading (Pc_Closing _) = True"
| "after_loading (Pc_Returned _) = True"
| "after_loading (Pc_Threw _) = True"
| "after_loading _ = False"

definition partial_load_inv :: "RenderInput set \<Rightarrow> TabRenderer \<Rightarrow> bool" where
  "partial_load_inv S t \<longleftrightarrow>
     (t_loadPage t \<noteq> Lp_Returned \<longrightarrow>
        t_error t = None \<and> t_completion t = Some PageLoadTimeout)
   \<and> (t_loadPage t = Lp_Returned \<longrightarrow>
        (\<exists>x. t_error t = Some x
             \<and> (err_type x = InitialRequestFailed \<or> err_type x = InitialRequestStatus))
      \<or> (t_error t = None
          \<and> (\<exists>c. In_triggered (Inr c) \<in> S \<and> t_completion t = Some c)))"

text \<open>
  \<open>headers_from E w\<close>: every header map stored on a record of the watcher is the header
  map of a \<^verbatim>\<open>responseReceived\<close> event of \<open>E\<close> for that request, and the record's status
  code is that event's.
\<close>

definition headers_from :: "NetworkEvent set \<Rightarrow> RequestWatcher \<Rightarrow> bool" where
  "headers_from E w \<longleftrightarrow>
     (\<forall>k r h. map_of (p_requests w) k = Some r \<and> headers r = Some h \<longrightarrow>
        (\<exists>ts resp. ResponseReceived k ts resp \<in> E \<and> resp_headers resp = h
                   \<and> statusCode r = Some (resp_status resp)))"

text \<open>
  Example values: the options object without optional properties, and the one that allows
  a partial load; a response with status 200, and one with the header \<^verbatim>\<open>Content-Type\<close>;
  the inputs of a page whose DOM content event fired while the initial request has its
  response but is not loaded yet, the inputs of a page whose initial request loaded and
  whose DOM content event fired, with \<^verbatim>\<open>loadPage\<close> waiting for the completion trigger, and
  the inputs of a whole render, from \<^verbatim>\<open>createTab\<close> to the end of \<^verbatim>\<open>close\<close>.
\<close>

definition no_render_options :: TabRenderOptions where
  "no_render_options = \<lparr> o_allowPartialLoad = None, o_pageLoadTimeoutMillis = None,
     o_expectedStatusCodes = None, o_scriptToEvaluateOnNewDocument = None, o_debug = None \<rparr>"

definition partial_load_options :: TabRenderOptions where
  "partial_load_options = no_render_options \<lparr> o_allowPartialLoad := Some True \<rparr>"

definition ok_response :: ProtocolResponse where
  "ok_response = \<lparr> resp_status = 200, resp_headers = [(''content-type'', ''text/html'')],
     resp_fromDiskCache = None \<rparr>"


definition slow_page :: "RenderInput list" where
  "slow_page =
     [In_clientReady, In_scriptAdded, In_navigated None,
      In_network (RequestWillBeSent ''1'' ''http://a/'' 1 None),
      In_network (ResponseReceived ''1'' 2 ok_response),
      In_domContentEventFired]"

definition loaded_page :: "RenderInput list" where
  "loaded_page =
     [In_clientReady, In_scriptAdded, In_navigated None,
      In_network (RequestWillBeSent ''1'' ''http://a/'' 1 None),
      In_network (ResponseReceived ''1'' 2 ok_response),
      In_network (LoadingFinished ''1'' 3),
      In_domContentEventFired]"


section \<open>Theorems\<close>

subsection \<open>Backoff\<close>

lemma getMillis_reset:
  "p_entries b \<noteq> [] \<Longrightarrow> getMillis (reset b) = Inr (millis (hd (p_entries b)))"
  by (cases "p_entries b") (simp_all add: getMillis_def reset_def)

text \<open>
  Claim C8. The specification says the n-th call of \<^verbatim>\<open>nextTry\<close> returns the delay of the
  last entry whose tries threshold the accumulated count has crossed. On the entries
  (0, 100), (3, 200), (5, 500) that is 100 for the first two calls. The code compares the
  next threshold with \<^verbatim>\<open>>=\<close> against the count, so it advances while the threshold has
  not been reached: the first call returns 200, the second 500, and every later one 500.
\<close>

theorem TriesBackoff_nextTry_advances_early:
  "(case TriesBackoff_new [\<lparr>tries = 0, millis = 100\<rparr>, \<lparr>tries = 3, millis = 200\<rparr>,
                           \<lparr>tries = 5, millis = 500\<rparr>] of
      Inl e \<Rightarrow> False
    | Inr b0 \<Rightarrow>
        fst (nextTry_calls 3 b0) = [Inr 200, Inr 500, Inr 500]
        \<and> map (spec_delay (p_entries b0)) [1, 2, 3] = [100, 100, 200])"
  by (simp add: TriesBackoff_new_def nextTry_def getMillis_def numeral_3_eq_3)

subsection \<open>Request watcher\<close>

lemma watch_new:
  "watch (RequestWatcher_new oi) = Inr w0 \<Longrightarrow>
   w0 = \<lparr> p_onlyInitial = (case oi of None \<Rightarrow> False | Some b \<Rightarrow> b),
       p_state = RW_Watching, p_requests = [], p_initialRequest = None,
       p_initialRequestSource = None,
       p_clientSubs = [OnHttpRequest \<mapsto> Some (''Network.requestWillBeSent'', OnHttpRequest),
                       OnHttpResponse \<mapsto> Some (''Network.responseReceived'', OnHttpResponse),
                       OnHttpFinished \<mapsto> Some (''Network.loadingFinished'', OnHttpFinished),
                       OnHttpFailed \<mapsto> Some (''Network.loadingFailed'', OnHttpFailed)],
       client_listeners = [(''Network.requestWillBeSent'', OnHttpRequest),
                           (''Network.responseReceived'', OnHttpResponse),
                           (''Network.loadingFinished'', OnHttpFinished),
                           (''Network.loadingFailed'', OnHttpFailed)], p_emitted = [] \<rparr>"
  by (auto simp: watch_def RequestWatcher_new_def subscribe_sub_def subscribe_def addListener_def Let_def)

lemma fold_id: "(\<And>h. h \<in> set hs \<Longrightarrow> f h w = w) \<Longrightarrow> fold f hs w = w"
  by (induction hs) auto

lemma redirect_unchanged: "client_emit (RequestWillBeSent i u t (Some r)) w = w"
  unfolding client_emit_def
  apply (rule fold_id)
  subgoal for h by (cases h) (simp_all add: onHttpRequest_def)
  done

lemma unsubscribe_sub_initial [simp]: "p_initialRequest (unsubscribe_sub k w) = p_initialRequest w"
  by (simp add: unsubscribe_sub_def unsubscribe_def split: option.splits prod.splits)

lemma unsubscribe_sub_requests [simp]: "p_requests (unsubscribe_sub k w) = p_requests w"
  by (simp add: unsubscribe_sub_def unsubscribe_def split: option.splits prod.splits)

lemma onRequestDone_initial [simp]: "p_initialRequest (onRequestDone r w) = p_initialRequest w"
  by (simp add: onRequestDone_def emit_watcher_def Let_def split: option.splits)

lemma call_handler_keeps_initial:
  "p_initialRequest w = Some k \<Longrightarrow> p_initialRequest (call_handler h ev w) = Some k"
  by (cases h; cases ev)
     (auto simp: onHttpRequest_def onHttpResponse_def onHttpFinished_def onHttpFailed_def
        emit_watcher_def Let_def split: option.splits)

lemma fold_keeps_initial:
  "p_initialRequest w = Some k \<Longrightarrow> p_initialRequest (fold (\<lambda>h. call_handler h ev) hs w) = Some k"
  by (induction hs arbitrary: w) (auto simp: call_handler_keeps_initial)

lemma client_emit_keeps_initial:
  "p_initialRequest w = Some k \<Longrightarrow> p_initialRequest (client_emit ev w) = Some k"
  by (simp add: client_emit_def fold_keeps_initial)

lemma client_emits_keeps_initial:
  "p_initialRequest w = Some k \<Longrightarrow> p_initialRequest (client_emits evs w) = Some k"
  unfolding client_emits_def
  by (induction evs arbitrary: w) (auto simp: client_emit_keeps_initial)

lemma fresh_other_unchanged:
  assumes "watch (RequestWatcher_new oi) = Inr w0" "\<not> nonRedirectRequest ev"
  shows "client_emit ev w0 = w0"
  using assms(2) unfolding watch_new[OF assms(1)]
  by (cases ev rule: nonRedirectRequest.cases)
     (simp_all add: client_emit_def listeners_def onHttpRequest_def onHttpResponse_def onHttpFinished_def onHttpFailed_def)

lemma fresh_first_request:
  assumes "watch (RequestWatcher_new oi) = Inr w0"
  shows "p_initialRequest (client_emit (RequestWillBeSent i u t None) w0) = Some i
     \<and> map_of (p_requests (client_emit (RequestWillBeSent i u t None) w0)) i
        = Some \<lparr> readyState = Pending, id' = i, url = u, sentAt = secsToHrTime t,
                        responseReceivedAt = None, statusCode = None, headers = None,
                        fromDiskCache = None, completedAt = None, errorText = None \<rparr>"
  unfolding watch_new[OF assms(1)]
  by (simp add: client_emit_def listeners_def onHttpRequest_def emit_watcher_def Let_def)

lemma unsubscribe_sub_keyed [simp]: "records_keyed (unsubscribe_sub k w) = records_keyed w"
  by (simp add: records_keyed_def)

lemma onRequestDone_requests [simp]: "p_requests (onRequestDone r w) = p_requests w"
  by (simp add: onRequestDone_def emit_watcher_def Let_def split: option.splits)

lemma call_handler_keyed:
  "records_keyed w \<Longrightarrow> records_keyed (call_handler h ev w)"
  by (cases h; cases ev)
     (auto simp: records_keyed_def onHttpRequest_def onHttpResponse_def onHttpFinished_def
        onHttpFailed_def emit_watcher_def Let_def update_conv' map_add_def
        split: option.splits if_splits)

lemma client_emit_keyed: "records_keyed w \<Longrightarrow> records_keyed (client_emit ev w)"
proof -
  have "records_keyed w \<Longrightarrow> records_keyed (fold (\<lambda>h. call_handler h ev) hs w)" for hs
    by (induction hs arbitrary: w) (auto simp: call_handler_keyed)
  then show "records_keyed w \<Longrightarrow> records_keyed (client_emit ev w)"
    by (simp add: client_emit_def)
qed

lemma client_emits_keyed: "records_keyed w \<Longrightarrow> records_keyed (client_emits evs w)"
  unfolding client_emits_def
  by (induction evs arbitrary: w) (auto simp: client_emit_keyed)

lemma fresh_keyed: "watch (RequestWatcher_new oi) = Inr w0 \<Longrightarrow> records_keyed w0"
  by (drule watch_new) (simp add: records_keyed_def)

lemma client_emits_Cons [simp]: "client_emits (ev # evs) w = client_emits evs (client_emit ev w)"
  by (simp add: client_emits_def)

lemma client_emits_Nil [simp]: "client_emits [] w = w"
  by (simp add: client_emits_def)

lemma initial_is_first:
  assumes w0: "watch (RequestWatcher_new oi) = Inr w0"
  shows "p_initialRequest (client_emits evs w0) = map_option requestId (find nonRedirectRequest evs)"
proof (induction evs)
  case Nil
  show ?case using watch_new[OF w0] by simp
next
  case (Cons ev evs)
  show ?case
  proof (cases "nonRedirectRequest ev")
    case False
    then show ?thesis using Cons fresh_other_unchanged[OF w0 False] by simp
  next
    case True
    then obtain i u t where ev: "ev = RequestWillBeSent i u t None"
      by (cases ev rule: nonRedirectRequest.cases) auto
    have "p_initialRequest (client_emit ev w0) = Some i"
      using fresh_first_request[OF w0] ev by simp
    then have "p_initialRequest (client_emits evs (client_emit ev w0)) = Some i"
      by (rule client_emits_keeps_initial)
    then show ?thesis using ev by simp
  qed
qed

text \<open>
  Claim C1. For every sequence of Network events a watching \<^verbatim>\<open>RequestWatcher\<close> processes:
  a \<^verbatim>\<open>requestWillBeSent\<close> event with a \<^verbatim>\<open>redirectResponse\<close> leaves the watcher as it
  is (no record is created); \<^verbatim>\<open>_initialRequest\<close> is the request of the first
  \<^verbatim>\<open>requestWillBeSent\<close> event without \<^verbatim>\<open>redirectResponse\<close> in the sequence (none while
  there was no such event); its record is in \<^verbatim>\<open>_requests\<close> under its own id; and once
  set it stays the same whatever events follow.
\<close>

theorem initial_request_is_first_non_redirect:
  assumes w0: "watch (RequestWatcher_new oi) = Inr w0"
  shows "(\<forall>w i u t r. client_emit (RequestWillBeSent i u t (Some r)) w = w)
    \<and> p_initialRequest (client_emits evs w0) = map_option requestId (find nonRedirectRequest evs)
    \<and> (\<forall>k. p_initialRequest (client_emits evs w0) = Some k \<longrightarrow>
          (\<exists>r. map_of (p_requests (client_emits evs w0)) k = Some r \<and> id' r = k))
    \<and> (\<forall>k evs'. p_initialRequest (client_emits evs w0) = Some k \<longrightarrow>
          p_initialRequest (client_emits evs' (client_emits evs w0)) = Some k)"
proof (intro conjI allI impI)
  show "client_emit (RequestWillBeSent i u t (Some r)) w = w" for w i u t r
    by (rule redirect_unchanged)
  show "p_initialRequest (client_emits evs w0) = map_option requestId (find nonRedirectRequest evs)"
    by (rule initial_is_first[OF w0])
  show "\<exists>r. map_of (p_requests (client_emits evs w0)) k = Some r \<and> id' r = k"
    if "p_initialRequest (client_emits evs w0) = Some k" for k
    using client_emits_keyed[OF fresh_keyed[OF w0], of evs] that
    by (auto simp: records_keyed_def)
  show "p_initialRequest (client_emits evs' (client_emits evs w0)) = Some k"
    if "p_initialRequest (client_emits evs w0) = Some k" for k evs'
    using that by (rule client_emits_keeps_initial)
qed

text \<open>
  Witness for C1: a redirect notification, then requests 1 and 2; the initial request is 1.
\<close>

theorem initial_request_is_first_non_redirect_witness:
  "watch (RequestWatcher_new None) = Inr (projr (watch (RequestWatcher_new None)))
   \<and> p_initialRequest (client_emits
        [RequestWillBeSent ''7'' ''http://a/'' 1
           (Some \<lparr>resp_status = 302, resp_headers = [], resp_fromDiskCache = None\<rparr>),
         RequestWillBeSent ''1'' ''http://a/'' 1 None,
         RequestWillBeSent ''2'' ''http://a/x.png'' 4 None]
        (projr (watch (RequestWatcher_new None)))) = Some ''1''"
proof -
  let ?evs = "[RequestWillBeSent ''7'' ''http://a/'' 1
           (Some \<lparr>resp_status = 302, resp_headers = [], resp_fromDiskCache = None\<rparr>),
         RequestWillBeSent ''1'' ''http://a/'' 1 None,
         RequestWillBeSent ''2'' ''http://a/x.png'' 4 None]"
  have h: "watch (RequestWatcher_new None) = Inr (projr (watch (RequestWatcher_new None)))"
    by (simp add: watch_def RequestWatcher_new_def)
  have "p_initialRequest (client_emits ?evs (projr (watch (RequestWatcher_new None))))
        = map_option requestId (find nonRedirectRequest ?evs)"
    by (rule initial_request_is_first_non_redirect[OF h, THEN conjunct2, THEN conjunct1])
  also have "\<dots> = Some ''1''" by simp
  finally show ?thesis using h by blast
qed

lemma removeListener_distinct:
  "distinct L \<Longrightarrow> removeListener n h L = filter (\<lambda>p. p \<noteq> (n, h)) L"
  by (simp add: removeListener_def distinct_remove1_removeAll removeAll_filter_not_eq rev_filter[symmetric])
     (metis (mono_tags, lifting) filter_cong)

lemma distinct_filter_table0: "distinct (filter P table0)"
  by (simp add: table0_def)

lemma subs_inv_subscribed: "subs_inv A w \<Longrightarrow> subscribed h w \<longleftrightarrow> h \<in> A"
  by (cases h) (auto simp: subs_inv_def subscribed_def table0_def)

lemma subs_inv_listeners:
  "subs_inv A w \<Longrightarrow>
   listeners (eventName ev) (client_listeners w) = (if handler_of ev \<in> A then [handler_of ev] else [])"
  by (cases ev) (auto simp: subs_inv_def listeners_def table0_def)

lemma subs_inv_unsubscribe:
  assumes "subs_inv A w"
  shows "subs_inv (A - {h}) (unsubscribe_sub h w)"
proof (cases "h \<in> A")
  case True
  have L: "client_listeners w = filter (\<lambda>p. snd p \<in> A) table0"
    and S: "p_clientSubs w h = Some (Some (name_of h, h))"
    using assms True by (auto simp: subs_inv_def)
  have "removeListener (name_of h) h (client_listeners w)
        = filter (\<lambda>p. p \<noteq> (name_of h, h)) (filter (\<lambda>p. snd p \<in> A) table0)"
    unfolding L by (rule removeListener_distinct[OF distinct_filter_table0])
  also have "\<dots> = filter (\<lambda>p. snd p \<in> A - {h}) table0"
    by (cases h) (auto simp: table0_def)
  finally show ?thesis
    using assms S by (auto simp: subs_inv_def unsubscribe_sub_def unsubscribe_def)
next
  case False
  then have S: "p_clientSubs w h = Some None" using assms by (auto simp: subs_inv_def)
  have "A - {h} = A" using False by auto
  moreover have "unsubscribe_sub h w = w\<lparr>p_clientSubs := (p_clientSubs w)(h \<mapsto> None)\<rparr>"
    using S by (simp add: unsubscribe_sub_def unsubscribe_def)
  ultimately show ?thesis using assms False by (auto simp: subs_inv_def)
qed

lemma subs_inv_upd [simp]:
  "subs_inv A (w\<lparr>p_requests := x\<rparr>) = subs_inv A w"
  "subs_inv A (w\<lparr>p_initialRequest := y\<rparr>) = subs_inv A w"
  "subs_inv A (w\<lparr>p_initialRequestSource := z\<rparr>) = subs_inv A w"
  "subs_inv A (w\<lparr>p_emitted := e\<rparr>) = subs_inv A w"
  by (simp_all add: subs_inv_def)

lemma subs_inv_onRequestDone [simp]: "subs_inv A (onRequestDone r w) = subs_inv A w"
  by (simp add: onRequestDone_def emit_watcher_def Let_def split: option.splits)

lemma subs_inv_emit [simp]: "subs_inv A (emit_watcher e w) = subs_inv A w"
  by (simp add: emit_watcher_def)

lemma unsubscribe_sub_onlyInitial [simp]: "p_onlyInitial (unsubscribe_sub k w) = p_onlyInitial w"
  by (simp add: unsubscribe_sub_def unsubscribe_def split: option.splits prod.splits)

lemma onRequestDone_onlyInitial [simp]: "p_onlyInitial (onRequestDone r w) = p_onlyInitial w"
  by (simp add: onRequestDone_def emit_watcher_def Let_def split: option.splits)

lemma client_emit_subs:
  "subs_inv A w \<Longrightarrow>
   client_emit ev w = (if handler_of ev \<in> A then call_handler (handler_of ev) ev w else w)"
  by (simp add: client_emit_def subs_inv_listeners)

lemma keys_single: "map fst xs = [k] \<Longrightarrow> \<exists>r. xs = [(k, r)]"
  by (cases xs) auto

lemma only_step:
  assumes A: "subs_inv A w" and O: "only_inv w"
  shows "\<exists>A'. subs_inv A' (client_emit ev w) \<and> only_inv (client_emit ev w)
           \<and> A' = (if handler_of ev \<in> A \<and> pertains_to_initial (client_emit ev w) ev
                   then A - {handler_of ev} else A)"
proof (cases "handler_of ev \<in> A")
  case False
  then show ?thesis using A O by (simp add: client_emit_subs)
next
  case True
  note sub = subs_inv_subscribed[OF A]
  note un = subs_inv_unsubscribe[OF A]
  have oi: "p_onlyInitial w" using O by (simp add: only_inv_def)
  show ?thesis
  proof (cases "p_initialRequest w")
    case None
    then have e: "p_requests w = []" using O by (simp add: only_inv_def)
    show ?thesis
    proof (cases ev)
      case (RequestWillBeSent i u t r)
      show ?thesis
      proof (cases r)
        case None' : None
        have sub': "\<not> subscribed OnHttpRequest (unsubscribe_sub OnHttpRequest w)"
          using subs_inv_subscribed[OF un[of OnHttpRequest]] by simp
        show ?thesis
          using A True None e oi un[of OnHttpRequest] sub' RequestWillBeSent None'
          by (simp add: client_emit_subs onHttpRequest_def Let_def pertains_to_initial_def
                only_inv_def subscribed_def emit_watcher_def)
      next
        case (Some a)
        then show ?thesis
          using A O RequestWillBeSent
          by (simp add: client_emit_subs onHttpRequest_def pertains_to_initial_def)
      qed
    qed (use A O None e True in \<open>simp_all add: client_emit_subs onHttpResponse_def
           onHttpFinished_def onHttpFailed_def pertains_to_initial_def\<close>)
  next
    case (Some k)
    then have keys: "map fst (p_requests w) = [k]" and nsub: "\<not> subscribed OnHttpRequest w"
      using O by (simp_all add: only_inv_def)
    obtain r where reqs: "p_requests w = [(k, r)]" using keys_single[OF keys] by blast
    have notreq: "OnHttpRequest \<notin> A" using nsub sub by simp
    have nsub': "\<not> subscribed OnHttpRequest (unsubscribe_sub h w)" for h
      using subs_inv_subscribed[OF un[of h]] notreq by simp
    show ?thesis
    proof (cases ev)
      case (RequestWillBeSent i u t rr)
      then show ?thesis using True notreq by simp
    next
      case (ResponseReceived i t resp)
      show ?thesis
        using A O Some reqs oi True ResponseReceived un[of OnHttpResponse] nsub'[of OnHttpResponse]
        by (auto simp: client_emit_subs onHttpResponse_def Let_def pertains_to_initial_def
              only_inv_def subscribed_def)
    next
      case (LoadingFinished i t)
      show ?thesis
        using A O Some reqs oi True LoadingFinished un[of OnHttpFinished] nsub'[of OnHttpFinished]
        by (auto simp: client_emit_subs onHttpFinished_def Let_def pertains_to_initial_def
              only_inv_def subscribed_def onRequestDone_def emit_watcher_def split: option.splits)
    next
      case (LoadingFailed i t e)
      show ?thesis
        using A O Some reqs oi True LoadingFailed un[of OnHttpFailed] nsub'[of OnHttpFailed]
        by (auto simp: client_emit_subs onHttpFailed_def Let_def pertains_to_initial_def
              only_inv_def subscribed_def onRequestDone_def emit_watcher_def split: option.splits)
    qed
  qed
qed

lemma fresh_only_inv:
  assumes "watch (RequestWatcher_new (Some True)) = Inr w0"
  shows "subs_inv UNIV w0 \<and> only_inv w0"
  unfolding watch_new[OF assms]
  apply (simp add: subs_inv_def only_inv_def table0_def)
  subgoal by (rule allI, case_tac h) simp_all
  done

lemma reachable_only_inv:
  assumes "watch (RequestWatcher_new (Some True)) = Inr w0"
  shows "\<exists>A. subs_inv A (client_emits evs w0) \<and> only_inv (client_emits evs w0)"
proof -
  have "subs_inv A w \<Longrightarrow> only_inv w \<Longrightarrow> \<exists>A'. subs_inv A' (client_emits evs w) \<and> only_inv (client_emits evs w)"
    for A w
  proof (induction evs arbitrary: A w)
    case Nil
    then show ?case by auto
  next
    case (Cons ev evs)
    from only_step[OF Cons.prems, of ev] obtain A' where
      "subs_inv A' (client_emit ev w)" "only_inv (client_emit ev w)" by blast
    from Cons.IH[OF this] show ?case by simp
  qed
  with fresh_only_inv[OF assms] show ?thesis by blast
qed

text \<open>
  Claim C6. In a watcher created with \<^verbatim>\<open>onlyInitial = true\<close>, after any sequence of
  events: a subscription that processes an event pertaining to the initial request is
  unsubscribed by it; an event that does not pertain to the initial request leaves the
  client's listener table as it is; an event never touches the subscriptions of the other
  three event classes, and no subscription ever comes back.
\<close>

theorem only_initial_unsubscribes:
  assumes w0: "watch (RequestWatcher_new (Some True)) = Inr w0"
    and w: "w = client_emits evs w0" and w': "w' = client_emit ev w"
  shows "(subscribed (handler_of ev) w \<and> pertains_to_initial w' ev \<longrightarrow> \<not> subscribed (handler_of ev) w')
    \<and> (\<not> pertains_to_initial w' ev \<longrightarrow> client_listeners w' = client_listeners w)
    \<and> (\<forall>g. g \<noteq> handler_of ev \<longrightarrow> subscribed g w' = subscribed g w)
    \<and> (\<forall>g. subscribed g w' \<longrightarrow> subscribed g w)"
proof -
  from reachable_only_inv[OF w0, of evs] obtain A where A: "subs_inv A w" and O: "only_inv w"
    using w by blast
  from only_step[OF A O, of ev] obtain A' where
    A': "subs_inv A' w'" and
    eq: "A' = (if handler_of ev \<in> A \<and> pertains_to_initial w' ev then A - {handler_of ev} else A)"
    using w' by blast
  note s = subs_inv_subscribed[OF A] and s' = subs_inv_subscribed[OF A']
  have L: "client_listeners w = filter (\<lambda>p. snd p \<in> A) table0"
    and L': "client_listeners w' = filter (\<lambda>p. snd p \<in> A') table0"
    using A A' by (simp_all add: subs_inv_def)
  show ?thesis
    using eq by (auto simp: s s' L L')
qed

text \<open>
  Witness for C6: after the initial request 1 was sent, its \<^verbatim>\<open>responseReceived\<close> event
  unsubscribes the response listener; a \<^verbatim>\<open>loadingFinished\<close> event of request 2 changes
  no subscription.
\<close>

theorem only_initial_unsubscribes_witness:
  "subscribed OnHttpResponse
     (client_emits [RequestWillBeSent ''1'' ''http://a/'' 1 None]
        (projr (watch (RequestWatcher_new (Some True)))))
   \<and> pertains_to_initial
       (client_emit (ResponseReceived ''1'' 2 \<lparr>resp_status = 200, resp_headers = [], resp_fromDiskCache = None\<rparr>)
         (client_emits [RequestWillBeSent ''1'' ''http://a/'' 1 None]
           (projr (watch (RequestWatcher_new (Some True))))))
       (ResponseReceived ''1'' 2 \<lparr>resp_status = 200, resp_headers = [], resp_fromDiskCache = None\<rparr>)
   \<and> \<not> subscribed OnHttpResponse
       (client_emit (ResponseReceived ''1'' 2 \<lparr>resp_status = 200, resp_headers = [], resp_fromDiskCache = None\<rparr>)
         (client_emits [RequestWillBeSent ''1'' ''http://a/'' 1 None]
           (projr (watch (RequestWatcher_new (Some True))))))
   \<and> \<not> pertains_to_initial
       (client_emit (LoadingFinished ''2'' 3)
         (client_emits [RequestWillBeSent ''1'' ''http://a/'' 1 None]
           (projr (watch (RequestWatcher_new (Some True))))))
       (LoadingFinished ''2'' 3)
   \<and> client_listeners
       (client_emit (LoadingFinished ''2'' 3)
         (client_emits [RequestWillBeSent ''1'' ''http://a/'' 1 None]
           (projr (watch (RequestWatcher_new (Some True))))))
     = client_listeners
         (client_emits [RequestWillBeSent ''1'' ''http://a/'' 1 None]
           (projr (watch (RequestWatcher_new (Some True)))))"
proof -
  let ?init = "projr (watch (RequestWatcher_new (Some True)))"
  let ?w = "client_emits [RequestWillBeSent ''1'' ''http://a/'' 1 None] ?init"
  let ?e1 = "ResponseReceived ''1'' 2 \<lparr>resp_status = 200, resp_headers = [], resp_fromDiskCache = None\<rparr>"
  let ?e2 = "LoadingFinished ''2'' 3"
  have h: "watch (RequestWatcher_new (Some True)) = Inr ?init"
    by (simp add: watch_def RequestWatcher_new_def)
  have w: "?w = ?init \<lparr> p_requests := [(''1'', \<lparr> readyState = Pending, id' = ''1'', url = ''http://a/'', sentAt = secsToHrTime 1,
                        responseReceivedAt = None, statusCode = None, headers = None,
                        fromDiskCache = None, completedAt = None, errorText = None \<rparr>)],
                 p_initialRequest := Some ''1'',
                 p_clientSubs := (p_clientSubs ?init)(OnHttpRequest \<mapsto> None),
                 client_listeners := tl table0,
                 p_emitted := [EvPending \<lparr> readyState = Pending, id' = ''1'', url = ''http://a/'', sentAt = secsToHrTime 1,
                        responseReceivedAt = None, statusCode = None, headers = None,
                        fromDiskCache = None, completedAt = None, errorText = None \<rparr>] \<rparr>"
    by (simp add: watch_def RequestWatcher_new_def subscribe_sub_def subscribe_def addListener_def
        client_emit_def listeners_def onHttpRequest_def emit_watcher_def unsubscribe_sub_def
        unsubscribe_def removeListener_def table0_def Let_def)
  have a: "subscribed OnHttpResponse ?w"
    unfolding w by (simp add: subscribed_def table0_def)
  have b: "pertains_to_initial (client_emit ?e1 ?w) ?e1"
    unfolding w by (simp add: pertains_to_initial_def client_emit_keeps_initial)
  have c: "\<not> pertains_to_initial (client_emit ?e2 ?w) ?e2"
    unfolding w by (simp add: pertains_to_initial_def client_emit_keeps_initial)
  from only_initial_unsubscribes[OF h refl refl, where evs = "[RequestWillBeSent ''1'' ''http://a/'' 1 None]" and ev = ?e1] a b
  have d: "\<not> subscribed OnHttpResponse (client_emit ?e1 ?w)" by simp
  from only_initial_unsubscribes[OF h refl refl, where evs = "[RequestWillBeSent ''1'' ''http://a/'' 1 None]" and ev = ?e2] c
  have e: "client_listeners (client_emit ?e2 ?w) = client_listeners ?w" by simp
  show ?thesis using a b c d e by blast
qed

lemma map_of_update_same: "map_of (AList.update k v al) k = Some v"
  by (simp add: update_conv')


subsection \<open>Dialog handler\<close>

text \<open>
  Claim C9. The claim says that \<^verbatim>\<open>close()\<close> after \<^verbatim>\<open>init(client)\<close> detaches both dialog
  listeners from the client. \<^verbatim>\<open>init\<close> never sets the status to Running, so \<^verbatim>\<open>close\<close>
  finds the status Initial, sets it to Stopped and returns before the loop that removes the
  listeners: on any client, both listeners that \<^verbatim>\<open>init\<close> added are still registered
  after \<^verbatim>\<open>close\<close>, and a second \<^verbatim>\<open>close\<close> does not remove them either.
\<close>

theorem DialogHandler_close_after_init_keeps_listeners:
  "(case DialogHandler_init client DialogHandler_new of
      Inl e \<Rightarrow> False
    | Inr (h1, client1) \<Rightarrow>
        client1 = client @ [(''Page.javascriptDialogOpening'', OnDialogOpened),
                            (''Page.javascriptDialogClosed'', OnDialogClosed)]
        \<and> dh_status h1 = DH_Initial
        \<and> snd (DialogHandler_close h1 client1) = client1
        \<and> dh_status (fst (DialogHandler_close h1 client1)) = DH_Stopped
        \<and> snd (DialogHandler_close (fst (DialogHandler_close h1 client1)) client1) = client1)"
  by (simp add: DialogHandler_init_def DialogHandler_new_def DialogHandler_close_def
        dialog_handlers_def addListener_def)

subsection \<open>Browser process\<close>

text \<open>
  Claim C10. \<^verbatim>\<open>stop()\<close> on a process that was never started returns (it does not throw and
  is not left waiting): it emits \<^verbatim>\<open>stopping\<close> with reason Requested while the status is
  Stopping, then \<^verbatim>\<open>stop\<close> with reason Requested while the status is Stopped, and leaves the
  status Stopped with the stop guard released. \<^verbatim>\<open>start()\<close> is then accepted: it does not
  throw \<^verbatim>\<open>LogicError\<close> and enters Starting.
\<close>

theorem stop_on_initial_process:
  "(case stop BrowserProcess_new of
      (None, p) \<Rightarrow> False
    | (Some version, p) \<Rightarrow>
        bp_emitted p = [(Ev_stopping Stop_Requested, BP_Stopping), (Ev_stop Stop_Requested, BP_Stopped)]
        \<and> bp_status p = BP_Stopped
        \<and> bp_stopReason p = Some Stop_Requested
        \<and> bp_stopGuard p = False
        \<and> (case start_enter p of
              Inl e \<Rightarrow> False
            | Inr p' \<Rightarrow> bp_status p' = BP_Starting \<and> bp_startCounter p' = 1))"
  by (simp add: stop_def stopImpl_def stop_body_def stop_finish_def BrowserProcess_new_def
        emit_process_def start_enter_def startImpl_enter_def Let_def)

subsection \<open>Browser supervisor\<close>

lemma body_frame [simp]:
  "sv_calls (body_after_start r s) = sv_calls s"
  "sv_promises (body_after_start r s) = sv_promises s"
  "sv_recycleGuard (body_after_start r s) = sv_recycleGuard s"
  "sv_bodyRuns (body_after_start r s) = sv_bodyRuns s"
  "sv_emitted (body_after_start r s) = sv_emitted s"
  "sv_body (body_after_start r s) \<noteq> Body_None"
  "sv_calls (body_after_stop r s) = sv_calls s"
  "sv_promises (body_after_stop r s) = sv_promises s"
  "sv_recycleGuard (body_after_stop r s) = sv_recycleGuard s"
  "sv_bodyRuns (body_after_stop r s) = sv_bodyRuns s"
  "sv_emitted (body_after_stop r s) = sv_emitted s"
  "sv_body (body_after_stop r s) \<noteq> Body_None"
  "sv_calls (body_after_drain r s) = sv_calls s"
  "sv_promises (body_after_drain r s) = sv_promises s"
  "sv_recycleGuard (body_after_drain r s) = sv_recycleGuard s"
  "sv_bodyRuns (body_after_drain r s) = sv_bodyRuns s"
  "sv_emitted (body_after_drain r s) = sv_emitted s"
  "sv_body (body_after_drain r s) \<noteq> Body_None"
  by (simp_all add: body_after_start_def body_after_stop_def body_after_drain_def)

lemma promote_frame [simp]:
  "sv_calls (promoteStandbyToMain reason s) = sv_calls s"
  "sv_promises (promoteStandbyToMain reason s) = sv_promises s"
  "sv_recycleGuard (promoteStandbyToMain reason s) = sv_recycleGuard s"
  "sv_bodyRuns (promoteStandbyToMain reason s) = sv_bodyRuns s"
  "sv_status (promoteStandbyToMain reason s) = sv_status s"
  "filter is_recycle (sv_emitted (promoteStandbyToMain reason s)) = filter is_recycle (sv_emitted s)"
  by (simp_all add: promoteStandbyToMain_def update_instance_def emit_supervisor_def Let_def
        split: InstanceRef.splits)

lemma body_start_frame [simp]:
  "sv_calls (body_start s) = sv_calls s"
  "sv_promises (body_start s) = sv_promises s"
  "sv_recycleGuard (body_start s) = sv_recycleGuard s"
  "sv_bodyRuns (body_start s) = sv_bodyRuns s"
  "filter is_recycle (sv_emitted (body_start s)) = filter is_recycle (sv_emitted s)"
  "sv_body (body_start s) \<noteq> Body_None"
  by (simp_all add: body_start_def Let_def)

lemma body_awaited_frame [simp]:
  "sv_calls (body_awaited f s) = sv_calls s"
  "sv_promises (body_awaited f s) = sv_promises s"
  "sv_recycleGuard (body_awaited f s) = sv_recycleGuard s"
  "sv_bodyRuns (body_awaited f s) = sv_bodyRuns s"
  "sv_emitted (body_awaited f s) = sv_emitted s"
  "sv_body (body_awaited f s) = Body_None \<longleftrightarrow> sv_body s = Body_None"
  by (simp_all add: body_awaited_def split: RecycleBody.splits option.splits)

lemma count_first_append [simp]: "count_first (cs @ ds) = count_first cs + count_first ds"
  by (simp add: count_first_def)

lemma count_first_single [simp]: "count_first [c] = (if inv_first c then 1 else 0)"
  by (simp add: count_first_def)

lemma count_first_Nil [simp]: "count_first [] = 0"
  by (simp add: count_first_def)






















text \<open>
  Claim C5. The claim says that after an auto-recycle run that resolved to
  StandbyUnavailable the next recycle is scheduled after the configured
  \<^verbatim>\<open>autoRecycleRetryAfterMillis\<close>. The constructor fills the internal
  \<^verbatim>\<open>autoRecycleRetryAfterMillis\<close> from \<^verbatim>\<open>options.autoRecycleAfterUptimeMillis\<close>: with
  \<^verbatim>\<open>autoRecycleAfterUptimeMillis: 3000, autoRecycleRetryAfterMillis: 1000\<close> the retry is
  scheduled after 3000 ms, and with \<^verbatim>\<open>autoRecycleRetryAfterMillis: 1000\<close> alone after the
  default 10000 ms.
\<close>

theorem retry_delay_ignores_option:
  "sv_recycleTimeout (recycle_timer_continuation StandbyUnavailable
      ((BrowserSupervisor_new (no_options \<lparr> o_autoRecycleAfterUptimeMillis := Some 3000,
                                             o_autoRecycleRetryAfterMillis := Some 1000 \<rparr>))
         \<lparr> sv_status := PS_Running \<rparr>)) = Some 3000
   \<and> sv_recycleTimeout (recycle_timer_continuation StandbyUnavailable
      ((BrowserSupervisor_new (no_options \<lparr> o_autoRecycleRetryAfterMillis := Some 1000 \<rparr>))
         \<lparr> sv_status := PS_Running \<rparr>)) = Some 10000"
  by (simp add: recycle_timer_continuation_def scheduleMainRecycle_def BrowserSupervisor_new_def
        no_options_def internal_options_def defaults_internal_def Let_def)

subsection \<open>Tab renderer\<close>

lemma response_inv_requests:
  "p_requests w' = p_requests w \<Longrightarrow> response_inv w' = response_inv w"
  by (simp add: response_inv_def)

lemma response_inv_unsubscribe [simp]: "response_inv (unsubscribe_sub k w) = response_inv w"
  by (rule response_inv_requests) simp

lemma response_inv_call_handler:
  "response_inv w \<Longrightarrow> response_inv (call_handler h ev w)"
  by (cases h; cases ev)
     (auto simp: response_inv_def onHttpRequest_def onHttpResponse_def onHttpFinished_def
        onHttpFailed_def emit_watcher_def Let_def update_conv' map_add_def
        split: option.splits if_splits)

lemma response_inv_client_emit: "response_inv w \<Longrightarrow> response_inv (client_emit ev w)"
proof -
  have "response_inv w \<Longrightarrow> response_inv (fold (\<lambda>h. call_handler h ev) hs w)" for hs
    by (induction hs arbitrary: w) (auto simp: response_inv_call_handler)
  then show "response_inv w \<Longrightarrow> response_inv (client_emit ev w)"
    by (simp add: client_emit_def)
qed

lemma close_sub_requests [simp]: "p_requests (close_sub k w) = p_requests w"
  by (simp add: close_sub_def split: option.splits)

lemma close_watcher_requests [simp]: "p_requests (close_watcher w) = p_requests w"
  by (simp add: close_watcher_def)

lemma close_sub_initial [simp]: "p_initialRequest (close_sub k w) = p_initialRequest w"
  by (simp add: close_sub_def split: option.splits)

lemma close_watcher_initial [simp]: "p_initialRequest (close_watcher w) = p_initialRequest w"
  by (simp add: close_watcher_def)

lemma response_inv_close [simp]: "response_inv (close_watcher w) = response_inv w"
  by (rule response_inv_requests) simp

lemma watch_requests: "watch w = Inr w' \<Longrightarrow> p_requests w' = p_requests w"
  by (auto simp: watch_def subscribe_sub_def subscribe_def Let_def split: if_splits)

lemma response_inv_watch: "watch w = Inr w' \<Longrightarrow> response_inv w' = response_inv w"
  by (rule response_inv_requests) (rule watch_requests)

lemma response_inv_new: "response_inv (RequestWatcher_new oi)"
  by (simp add: response_inv_def RequestWatcher_new_def)

lemma running_begin_close: "running_inv t \<Longrightarrow> running_inv (begin_close e t)"
  by (simp add: running_inv_def begin_close_def not_returned_def)

lemma running_upd [simp]:
  "running_inv (t\<lparr>t_error := x\<rparr>) = running_inv t"
  "running_inv (t\<lparr>t_completion := c\<rparr>) = running_inv t"
  "running_inv (t\<lparr>t_resolvedUrl := u\<rparr>) = running_inv t"
  "running_inv (t\<lparr>t_loadPage := l\<rparr>) = running_inv t"
  "running_inv (t\<lparr>t_html := h\<rparr>) = running_inv t"
  "running_inv (t\<lparr>t_domContentLoaded := d\<rparr>) = running_inv t"
  "running_inv (t\<lparr>t_domListener := l'\<rparr>) = running_inv t"
  by (simp_all add: running_inv_def)

lemma running_pc: "running_inv t \<Longrightarrow> not_returned pc \<Longrightarrow> running_inv (t\<lparr>t_pc := pc\<rparr>)"
  by (simp add: running_inv_def)

lemma running_after_load: "running_inv t \<Longrightarrow> running_inv (after_load b t)"
  by (simp add: after_load_def running_begin_close running_pc not_returned_def)

lemma running_loadPage_done: "running_inv t \<Longrightarrow> running_inv (loadPage_done lp t)"
  by (simp add: loadPage_done_def Let_def running_after_load)

lemma running_after_initial: "running_inv t \<Longrightarrow> running_inv (loadPage_after_initial r t)"
  by (simp add: loadPage_after_initial_def Let_def running_loadPage_done)

lemma running_poll: "running_inv t \<Longrightarrow> running_inv (loadPage_poll t)"
  by (simp add: loadPage_poll_def running_after_initial split: option.splits)

lemma running_watcher:
  "running_inv t \<Longrightarrow> response_inv w \<Longrightarrow> running_inv (t\<lparr>t_requestWatcher := w\<rparr>)"
  by (simp add: running_inv_def)

lemma running_watch_or_fail: "running_inv t \<Longrightarrow> watch_or_fail t = Inr t1 \<Longrightarrow> running_inv t1"
  by (auto simp: watch_or_fail_def running_inv_def response_inv_watch split: sum.splits)

lemma running_tab_failed: "running_inv t \<Longrightarrow> running_inv (tab_creation_failed m t)"
  by (simp add: tab_creation_failed_def running_begin_close)

lemma running_start_loadPage: "running_inv t \<Longrightarrow> running_inv (start_loadPage t)"
  by (simp add: start_loadPage_def running_pc not_returned_def)

lemma running_step:
  assumes "running_inv t" "i \<noteq> In_closed"
  shows "running_inv (render_step i t)"
proof (cases i)
  case In_clientReady
  then show ?thesis
    using assms
    by (auto simp: running_pc not_returned_def split: RenderPc.splits CreateTabPc.splits)
next
  case In_scriptAdded
  then show ?thesis
    using assms
    by (auto simp: running_tab_failed running_pc running_start_loadPage not_returned_def
          dest: running_watch_or_fail split: sum.splits RenderPc.splits CreateTabPc.splits)
next
  case (In_tabCreationFailed m)
  then show ?thesis
    using assms
    by (auto simp: running_tab_failed split: RenderPc.splits)
next
  case (In_network ev)
  have "running_inv (t\<lparr>t_requestWatcher := client_emit ev (t_requestWatcher t)\<rparr>)"
    using assms(1) by (intro running_watcher response_inv_client_emit) (simp_all add: running_inv_def)
  then show ?thesis
    using assms In_network by (auto simp: running_poll split: RenderPc.splits)
next
  case In_domContentEventFired
  then show ?thesis using assms by (auto split: RenderPc.splits)
next
  case (In_navigated f)
  then show ?thesis
    using assms by (auto simp: running_loadPage_done running_poll split: RenderPc.splits option.splits)
next
  case (In_triggered outcome)
  then show ?thesis
    using assms by (auto simp: running_loadPage_done split: RenderPc.splits sum.splits)
next
  case In_pageLoadTimer
  then show ?thesis using assms by (auto simp: running_after_load)
next
  case (In_evaluated outcome)
  then show ?thesis
    using assms by (auto simp: running_begin_close split: sum.splits option.splits)
next
  case In_closed
  then show ?thesis using assms by simp
qed

lemma returned_absorbs: "t_pc t = Pc_Returned r \<Longrightarrow> render_step i t = t"
  by (cases i) simp_all

lemma getResult_pc [simp]: "getResult (t\<lparr>t_pc := pc\<rparr>) = getResult t"
  by (cases "t_error t") (simp_all add: getResult_def Let_def)

lemma render_inv_step: "render_inv t \<Longrightarrow> render_inv (render_step i t)"
proof (cases "not_returned (t_pc t)")
  case False
  then obtain r where "t_pc t = Pc_Returned r"
    by (auto simp: not_returned_def split: RenderPc.splits)
  then show "render_inv t \<Longrightarrow> ?thesis" by (simp add: returned_absorbs)
next
  case True
  assume I: "render_inv t"
  then have R: "running_inv t" using True by (simp add: render_inv_def running_inv_def)
  show ?thesis
  proof (cases "i = In_closed")
    case False
    from running_step[OF R False] show ?thesis
      by (auto simp: render_inv_def running_inv_def not_returned_def)
  next
    case True
    then show ?thesis using I by (auto simp: render_inv_def split: RenderPc.splits option.splits)
  qed
qed

lemma render_inv_run: "render_inv t \<Longrightarrow> render_inv (render_run ins t)"
  unfolding render_run_def
  by (induction ins arbitrary: t) (simp_all add: render_inv_step)

lemma render_inv_rendering: "render_inv (rendering options ins)"
  unfolding rendering_def
  by (rule render_inv_run) (simp add: render_inv_def TabRenderer_new_def response_inv_new Let_def)

lemma getResult_status:
  assumes "response_inv (t_requestWatcher t)"
  shows "(r_httpStatus (getResult t) \<noteq> None \<longleftrightarrow> initial_done_with_response (t_requestWatcher t))
       \<and> (r_headers (getResult t) \<noteq> None \<longleftrightarrow> initial_done_with_response (t_requestWatcher t))"
  using assms
  by (auto simp: getResult_def initialRequest_def initial_done_with_response_def response_inv_def
        Let_def split: option.splits)

lemmas watcher_eval =
  watch_def RequestWatcher_new_def subscribe_sub_def subscribe_def addListener_def
  client_emit_def listeners_def onHttpRequest_def onHttpResponse_def onHttpFinished_def
  onHttpFailed_def onRequestDone_def emit_watcher_def unsubscribe_sub_def unsubscribe_def
  removeListener_def close_watcher_def close_sub_def secsToHrTime_def

lemmas render_eval =
  rendering_def render_run_def TabRenderer_new_def no_render_options_def ok_response_def
  watch_or_fail_def tab_creation_failed_def begin_close_def after_load_def loadPage_done_def
  loadPage_after_initial_def loadPage_poll_def initialRequestStatusOk_def getResult_def
  start_loadPage_def
  initialRequest_def render_result_def Let_def

text \<open>
  Claim C2, as amended. For every render that returns an error result, \<^verbatim>\<open>httpStatus\<close> is
  populated if and only if the initial request's record is Loaded, or Failed after a
  response was received; and so is \<^verbatim>\<open>headers\<close>. A record that is still in state Response
  (the response arrived, the load neither finished nor failed) gives neither, because the
  getter \<^verbatim>\<open>initialRequest\<close> hides it.
\<close>

theorem error_result_status_iff_initial_done:
  assumes "render_result (rendering options ins) = Some (Inr r)" and "\<not> r_ok r"
  shows "(r_httpStatus r \<noteq> None \<longleftrightarrow> initial_done_with_response (t_requestWatcher (rendering options ins)))
       \<and> (r_headers r \<noteq> None \<longleftrightarrow> initial_done_with_response (t_requestWatcher (rendering options ins)))"
proof -
  have I: "render_inv (rendering options ins)" by (rule render_inv_rendering)
  have "t_pc (rendering options ins) = Pc_Returned r"
    using assms(1) by (auto simp: render_result_def split: RenderPc.splits)
  then have "r = getResult (rendering options ins)"
    using I by (simp add: render_inv_def)
  moreover have "response_inv (t_requestWatcher (rendering options ins))"
    using I by (simp add: render_inv_def)
  ultimately show ?thesis using getResult_status by blast
qed

text \<open>
  A response with status 200 arrives for the initial request, then the page-load timer
  fires before the DOM content event: the render returns an error of kind Timeout with
  neither \<^verbatim>\<open>httpStatus\<close> nor \<^verbatim>\<open>headers\<close>, although the initial request reached Response.
\<close>

theorem timeout_after_response_has_no_status:
  "(case render_result (rendering no_render_options
        [In_clientReady, In_scriptAdded, In_navigated None,
         In_network (RequestWillBeSent ''1'' ''http://a/'' 1 None),
         In_network (ResponseReceived ''1'' 2 ok_response),
         In_pageLoadTimer, In_closed]) of
      Some (Inr r) \<Rightarrow> \<not> r_ok r \<and> r_type r = Some Timeout \<and> r_httpStatus r = None \<and> r_headers r = None
    | _ \<Rightarrow> False)
   \<and> initial_reached_response (t_requestWatcher (rendering no_render_options
        [In_clientReady, In_scriptAdded, In_navigated None,
         In_network (RequestWillBeSent ''1'' ''http://a/'' 1 None),
         In_network (ResponseReceived ''1'' 2 ok_response),
         In_pageLoadTimer, In_closed]))"
  by (simp add: render_eval watcher_eval initial_reached_response_def)

text \<open>
  Witness for C2: the initial request fails after its response (incomplete chunked
  encoding); the error result of kind InitialRequestFailed carries the status 200.
\<close>

theorem error_result_status_iff_initial_done_witness:
  "r_type (getResult (rendering no_render_options
        [In_clientReady, In_scriptAdded, In_navigated None,
         In_network (RequestWillBeSent ''1'' ''http://a/'' 1 None),
         In_network (ResponseReceived ''1'' 2 ok_response),
         In_network (LoadingFailed ''1'' 3 ''net::ERR_INCOMPLETE_CHUNKED_ENCODING''),
         In_closed])) = Some InitialRequestFailed
   \<and> r_httpStatus (getResult (rendering no_render_options
        [In_clientReady, In_scriptAdded, In_navigated None,
         In_network (RequestWillBeSent ''1'' ''http://a/'' 1 None),
         In_network (ResponseReceived ''1'' 2 ok_response),
         In_network (LoadingFailed ''1'' 3 ''net::ERR_INCOMPLETE_CHUNKED_ENCODING''),
         In_closed])) = Some 200
   \<and> initial_done_with_response (t_requestWatcher (rendering no_render_options
        [In_clientReady, In_scriptAdded, In_navigated None,
         In_network (RequestWillBeSent ''1'' ''http://a/'' 1 None),
         In_network (ResponseReceived ''1'' 2 ok_response),
         In_network (LoadingFailed ''1'' 3 ''net::ERR_INCOMPLETE_CHUNKED_ENCODING''),
         In_closed]))"
proof -
  let ?ins = "[In_clientReady, In_scriptAdded, In_navigated None,
         In_network (RequestWillBeSent ''1'' ''http://a/'' 1 None),
         In_network (ResponseReceived ''1'' 2 ok_response),
         In_network (LoadingFailed ''1'' 3 ''net::ERR_INCOMPLETE_CHUNKED_ENCODING''),
         In_closed]"
  let ?t = "rendering no_render_options ?ins"
  have res: "render_result ?t = Some (Inr (getResult ?t))"
    by (simp add: render_eval watcher_eval)
  have err: "\<not> r_ok (getResult ?t)" and ty: "r_type (getResult ?t) = Some InitialRequestFailed"
    and st: "r_httpStatus (getResult ?t) = Some 200"
    by (simp_all add: render_eval watcher_eval)
  have "r_httpStatus (getResult ?t) \<noteq> None" using st by simp
  then have "initial_done_with_response (t_requestWatcher ?t)"
    using error_result_status_iff_initial_done[OF res err] by blast
  then show ?thesis using ty st by blast
qed

lemma after_load_pc: "\<not> creating (t_pc (after_load b t)) \<and> t_pc (after_load b t) \<noteq> Pc_LoadingPage"
  by (simp add: after_load_def begin_close_def)

lemma load_inv_after_load: "load_inv (after_load b t)"
  using after_load_pc[of b t] by (simp add: load_inv_def)

lemma load_inv_done: "\<not> creating (t_pc t) \<Longrightarrow> load_inv (loadPage_done lp t)"
  by (simp add: loadPage_done_def Let_def load_inv_after_load) (simp add: load_inv_def)

lemma load_inv_after_initial:
  "\<not> creating (t_pc t) \<Longrightarrow> load_inv t \<Longrightarrow> load_inv (loadPage_after_initial r t)"
  by (simp add: loadPage_after_initial_def Let_def load_inv_done) (simp add: load_inv_def)

lemma load_inv_poll:
  assumes "load_inv t"
  shows "load_inv (loadPage_poll t)"
proof (cases "t_loadPage t = Lp_AwaitInitialRequest")
  case True
  then have nc: "\<not> creating (t_pc t)" using assms by (auto simp: load_inv_def)
  show ?thesis
    using assms True load_inv_after_initial[OF nc assms]
    by (simp add: loadPage_poll_def split: option.splits)
next
  case False
  then show ?thesis using assms by (simp add: loadPage_poll_def)
qed

lemma load_inv_begin_close: "load_inv (begin_close e t)"
  by (simp add: load_inv_def begin_close_def)

lemma load_inv_tab_failed: "load_inv (tab_creation_failed m t)"
  by (simp add: tab_creation_failed_def load_inv_begin_close)

lemma watch_or_fail_frame:
  "watch_or_fail t = Inr t1 \<Longrightarrow>
   t_error t1 = t_error t \<and> t_pc t1 = t_pc t \<and> t_loadPage t1 = t_loadPage t
   \<and> t_options t1 = t_options t"
  by (auto simp: watch_or_fail_def split: sum.splits)

lemma load_inv_step:
  assumes I: "load_inv t"
  shows "load_inv (render_step i t)"
proof (cases i)
  case In_clientReady
  then show ?thesis
    using I by (auto simp: load_inv_def split: RenderPc.splits CreateTabPc.splits)
next
  case In_scriptAdded
  have e: "creating (t_pc t) \<Longrightarrow> t_error t = None \<and> t_loadPage t = Lp_NotStarted"
    using I by (simp add: load_inv_def)
  consider (first) "t_pc t = Pc_CreatingTab Ct_AddingScript"
    | (second) "t_pc t = Pc_CreatingTab Ct_AddingUserScript"
    | (other) "t_pc t \<noteq> Pc_CreatingTab Ct_AddingScript" "t_pc t \<noteq> Pc_CreatingTab Ct_AddingUserScript"
    by blast
  then show ?thesis
  proof cases
    case first
    show ?thesis
    proof (cases "watch_or_fail t")
      case (Inl a)
      then have "render_step i t = tab_creation_failed (Some ''Invalid watcher state'') t"
        using first In_scriptAdded by simp
      then show ?thesis by (simp add: load_inv_tab_failed)
    next
      case (Inr t1)
      then show ?thesis
        using first In_scriptAdded e watch_or_fail_frame[OF Inr]
        by (simp add: load_inv_def start_loadPage_def)
    qed
  next
    case second
    then show ?thesis
      using In_scriptAdded e by (simp add: load_inv_def start_loadPage_def)
  next
    case other
    then have "render_step i t = t"
      using In_scriptAdded by (auto split: RenderPc.splits CreateTabPc.splits)
    then show ?thesis using I by simp
  qed
next
  case (In_tabCreationFailed m)
  then show ?thesis
    using I by (auto simp: load_inv_tab_failed split: RenderPc.splits)
next
  case (In_network ev)
  have "load_inv (t\<lparr>t_requestWatcher := client_emit ev (t_requestWatcher t)\<rparr>)"
    using I by (simp add: load_inv_def)
  then show ?thesis using I In_network by (auto simp: load_inv_poll split: RenderPc.splits)
next
  case In_domContentEventFired
  have "load_inv (t\<lparr>t_domContentLoaded := True\<rparr>)" using I by (simp add: load_inv_def)
  then show ?thesis using I In_domContentEventFired by (auto split: RenderPc.splits)
next
  case (In_navigated f)
  have nc: "t_loadPage t = Lp_Navigating \<Longrightarrow> \<not> creating (t_pc t)"
    using I by (auto simp: load_inv_def)
  have "load_inv (t\<lparr>t_loadPage := Lp_AwaitInitialRequest\<rparr>)" if "t_loadPage t = Lp_Navigating"
    using I nc[OF that] by (simp add: load_inv_def)
  then show ?thesis
    using I In_navigated nc
    by (auto simp: load_inv_done load_inv_poll split: RenderPc.splits option.splits)
next
  case (In_triggered outcome)
  have nc: "t_loadPage t = Lp_AwaitTrigger \<Longrightarrow> \<not> creating (t_pc t)"
    using I by (auto simp: load_inv_def)
  show ?thesis
    using I In_triggered nc
    by (auto simp: load_inv_done split: RenderPc.splits sum.splits)
next
  case In_pageLoadTimer
  then show ?thesis using I by (simp add: load_inv_after_load)
next
  case (In_evaluated outcome)
  then show ?thesis
    using I by (auto simp: load_inv_begin_close split: sum.splits option.splits)
next
  case In_closed
  have "load_inv (t\<lparr>t_pc := Pc_Returned r\<rparr>)" "load_inv (t\<lparr>t_pc := Pc_Threw e\<rparr>)" for r e
    by (simp_all add: load_inv_def)
  then show ?thesis
    using I In_closed by (auto split: RenderPc.splits option.splits)
qed

lemma load_inv_rendering: "load_inv (rendering options ins)"
proof -
  have "load_inv t \<Longrightarrow> load_inv (render_run ins t)" for t
    unfolding render_run_def by (induction ins arbitrary: t) (simp_all add: load_inv_step)
  moreover have "load_inv ((TabRenderer_new options) \<lparr> t_started := True, t_pc := Pc_CreatingTab Ct_Connecting \<rparr>)"
    by (simp add: load_inv_def TabRenderer_new_def Let_def)
  ultimately show ?thesis
    unfolding rendering_def by blast
qed

lemma render_run_Nil [simp]: "render_run [] t = t"
  by (simp add: render_run_def)

lemma render_run_Cons [simp]: "render_run (i # ins) t = render_run ins (render_step i t)"
  by (simp add: render_run_def)

lemma render_run_append [simp]: "render_run (xs @ ys) t = render_run ys (render_run xs t)"
  by (simp add: render_run_def)

lemma loadPage_done_lp [simp]: "t_loadPage (loadPage_done lp t) = lp"
  by (simp add: loadPage_done_def after_load_def begin_close_def Let_def)

lemma done_late:
  "t_pc t \<noteq> Pc_LoadingPage \<Longrightarrow> loadPage_done lp t = t\<lparr>t_loadPage := lp\<rparr>"
  by (simp add: loadPage_done_def Let_def)

lemma after_initial_late:
  "t_pc t \<noteq> Pc_LoadingPage \<Longrightarrow>
   t_pc (loadPage_after_initial r t) = t_pc t \<and> t_html (loadPage_after_initial r t) = t_html t"
  by (simp add: loadPage_after_initial_def Let_def done_late)

lemma poll_late:
  "t_pc t \<noteq> Pc_LoadingPage \<Longrightarrow>
   t_pc (loadPage_poll t) = t_pc t \<and> t_html (loadPage_poll t) = t_html t"
  by (simp add: loadPage_poll_def after_initial_late split: option.splits)

lemma cancelled_done:
  "t_pc t = Pc_Closing e \<Longrightarrow> t_error t = Some x \<Longrightarrow>
   t_pc (loadPage_done lp t) = Pc_Closing e \<and> t_error (loadPage_done lp t) = Some x"
  by (simp add: loadPage_done_def Let_def)

lemma cancelled_poll:
  "t_pc t = Pc_Closing e \<Longrightarrow> t_error t = Some x \<Longrightarrow>
   t_pc (loadPage_poll t) = Pc_Closing e \<and> t_error (loadPage_poll t) = Some x"
  by (simp add: loadPage_poll_def loadPage_after_initial_def cancelled_done split: option.splits)

lemma closing_stable:
  assumes "t_pc t = Pc_Closing e" "t_error t = Some x" "i \<noteq> In_closed"
  shows "t_pc (render_step i t) = Pc_Closing e \<and> t_error (render_step i t) = Some x"
proof (cases i)
  case (In_network ev)
  have "t_pc (t\<lparr>t_requestWatcher := w\<rparr>) = Pc_Closing e \<and> t_error (t\<lparr>t_requestWatcher := w\<rparr>) = Some x" for w
    using assms by simp
  then show ?thesis using assms In_network cancelled_poll by simp
next
  case (In_navigated f)
  then show ?thesis using assms cancelled_done[OF assms(1,2)] by (auto split: option.splits)
next
  case (In_triggered outcome)
  then show ?thesis using assms cancelled_done[OF assms(1,2)] by (auto split: sum.splits)
qed (use assms in simp_all)

lemma closing_stable_run:
  assumes "t_pc t = Pc_Closing e" "t_error t = Some x" "In_closed \<notin> set ins"
  shows "t_pc (render_run ins t) = Pc_Closing e \<and> t_error (render_run ins t) = Some x"
  using assms
proof (induction ins arbitrary: t)
  case Nil
  then show ?case by simp
next
  case (Cons i ins)
  from closing_stable[OF Cons.prems(1,2), of i] Cons.prems(3)
  have "t_pc (render_step i t) = Pc_Closing e \<and> t_error (render_step i t) = Some x" by auto
  then show ?case using Cons.IH[of "render_step i t"] Cons.prems(3) by simp
qed

lemma reading_stable:
  assumes "t_pc t = Pc_ReadingHtml" "\<forall>x. i \<noteq> In_evaluated x"
  shows "t_pc (render_step i t) = Pc_ReadingHtml"
proof (cases i)
  case (In_network ev)
  then show ?thesis using assms poll_late[of "t\<lparr>t_requestWatcher := client_emit ev (t_requestWatcher t)\<rparr>"] by simp
next
  case (In_navigated f)
  then show ?thesis
    using assms poll_late[of "t\<lparr>t_loadPage := Lp_AwaitInitialRequest\<rparr>"]
    by (auto simp: done_late split: option.splits)
next
  case (In_triggered outcome)
  then show ?thesis using assms by (auto simp: done_late split: sum.splits)
qed (use assms in simp_all)

lemma reading_stable_run:
  assumes "t_pc t = Pc_ReadingHtml" "\<forall>x. In_evaluated x \<notin> set ins"
  shows "t_pc (render_run ins t) = Pc_ReadingHtml"
  using assms
proof (induction ins arbitrary: t)
  case Nil
  then show ?case by simp
next
  case (Cons i ins)
  have "t_pc (render_step i t) = Pc_ReadingHtml"
    using reading_stable[OF Cons.prems(1), of i] Cons.prems(2) by auto
  then show ?case using Cons.IH[of "render_step i t"] Cons.prems(2) by simp
qed

lemma closing_keeps:
  assumes "t_pc t = Pc_Closing e" "i \<noteq> In_closed"
  shows "t_pc (render_step i t) = Pc_Closing e \<and> t_html (render_step i t) = t_html t"
proof (cases i)
  case (In_network ev)
  then show ?thesis using assms poll_late[of "t\<lparr>t_requestWatcher := client_emit ev (t_requestWatcher t)\<rparr>"] by simp
next
  case (In_navigated f)
  then show ?thesis
    using assms poll_late[of "t\<lparr>t_loadPage := Lp_AwaitInitialRequest\<rparr>"]
    by (auto simp: done_late split: option.splits)
next
  case (In_triggered outcome)
  then show ?thesis using assms by (auto simp: done_late split: sum.splits)
qed (use assms in simp_all)

lemma closing_keeps_run:
  assumes "t_pc t = Pc_Closing e" "In_closed \<notin> set ins"
  shows "t_pc (render_run ins t) = Pc_Closing e \<and> t_html (render_run ins t) = t_html t"
  using assms
proof (induction ins arbitrary: t)
  case Nil
  then show ?case by simp
next
  case (Cons i ins)
  have s: "t_pc (render_step i t) = Pc_Closing e \<and> t_html (render_step i t) = t_html t"
    using closing_keeps[OF Cons.prems(1), of i] Cons.prems(2) by auto
  then show ?case using Cons.IH[of "render_step i t"] Cons.prems(2) by simp
qed

lemma partial_load_inv_mono:
  "partial_load_inv S t \<Longrightarrow> S \<subseteq> S' \<Longrightarrow> partial_load_inv S' t"
  by (auto simp: partial_load_inv_def)

lemma partial_upd [simp]:
  "partial_load_inv S (t\<lparr>t_requestWatcher := w\<rparr>) = partial_load_inv S t"
  "partial_load_inv S (t\<lparr>t_pc := pc\<rparr>) = partial_load_inv S t"
  "partial_load_inv S (t\<lparr>t_html := h\<rparr>) = partial_load_inv S t"
  "partial_load_inv S (t\<lparr>t_resolvedUrl := u\<rparr>) = partial_load_inv S t"
  "partial_load_inv S (t\<lparr>t_domContentLoaded := d\<rparr>) = partial_load_inv S t"
  "partial_load_inv S (t\<lparr>t_domListener := l'\<rparr>) = partial_load_inv S t"
  by (simp_all add: partial_load_inv_def)

lemma partial_after_initial:
  assumes "partial_load_inv S t" "t_pc t \<noteq> Pc_LoadingPage" "t_loadPage t = Lp_AwaitInitialRequest"
  shows "partial_load_inv S (loadPage_after_initial r t)"
  using assms
  by (auto simp: partial_load_inv_def loadPage_after_initial_def Let_def done_late)

lemma partial_poll:
  assumes "partial_load_inv S t" "t_pc t \<noteq> Pc_LoadingPage"
  shows "partial_load_inv S (loadPage_poll t)"
  using assms partial_after_initial
  by (auto simp: loadPage_poll_def split: option.splits)

lemma partial_step:
  assumes Q: "partial_load_inv S t" and pc: "after_loading (t_pc t)"
  shows "partial_load_inv (insert i S) (render_step i t) \<and> after_loading (t_pc (render_step i t))"
proof -
  have late: "t_pc t \<noteq> Pc_LoadingPage" using pc by auto
  have Q': "partial_load_inv (insert i S) t"
    using Q by (rule partial_load_inv_mono) auto
  show ?thesis
  proof (cases i)
    case (In_network ev)
    let ?t1 = "t\<lparr>t_requestWatcher := client_emit ev (t_requestWatcher t)\<rparr>"
    have "partial_load_inv (insert i S) ?t1" using Q' by (simp add: partial_load_inv_def)
    then have "partial_load_inv (insert i S) (loadPage_poll ?t1)"
      using late by (intro partial_poll) simp_all
    moreover have "t_pc (loadPage_poll ?t1) = t_pc t" using poll_late[of ?t1] late by simp
    ultimately show ?thesis
      using In_network Q' pc by (auto split: RenderPc.splits)
  next
    case (In_navigated f)
    let ?t1 = "t\<lparr>t_loadPage := Lp_AwaitInitialRequest\<rparr>"
    have a: "partial_load_inv (insert i S) (loadPage_poll ?t1)"
      if "t_loadPage t = Lp_Navigating" "t_error t = None"
      using Q' that late by (intro partial_poll) (simp_all add: partial_load_inv_def)
    have b: "t_pc (loadPage_poll ?t1) = t_pc t" using poll_late[of ?t1] late by simp
    have c: "partial_load_inv (insert i S) (t\<lparr>t_loadPage := Lp_Threw\<rparr>)"
      if "t_loadPage t = Lp_Navigating"
      using Q' that by (simp add: partial_load_inv_def)
    have d: "t_loadPage t = Lp_Navigating \<Longrightarrow> t_error t = None"
      using Q by (simp add: partial_load_inv_def)
    show ?thesis
      using In_navigated Q' pc late a b c d
      by (auto simp: done_late split: RenderPc.splits option.splits)
  next
    case (In_triggered outcome)
    have d: "t_loadPage t = Lp_AwaitTrigger \<Longrightarrow> t_error t = None"
      using Q by (simp add: partial_load_inv_def)
    have c: "partial_load_inv (insert i S) (t\<lparr>t_loadPage := Lp_Threw\<rparr>)"
      if "t_loadPage t = Lp_AwaitTrigger"
      using Q' that by (simp add: partial_load_inv_def)
    have e: "partial_load_inv (insert i S) (t\<lparr>t_completion := Some c, t_loadPage := Lp_Returned\<rparr>)"
      if "t_loadPage t = Lp_AwaitTrigger" "outcome = Inr c" for c
      using Q' that d In_triggered by (simp add: partial_load_inv_def)
    show ?thesis
      using In_triggered Q' pc late c d e
      by (auto simp: done_late split: RenderPc.splits sum.splits)
  next
    case (In_evaluated outcome)
    show ?thesis
      using In_evaluated Q' pc
      by (auto simp: begin_close_def split: sum.splits option.splits)
  next
    case In_closed
    have "partial_load_inv (insert i S) (t\<lparr>t_pc := x\<rparr>)" for x
      using Q' by (simp add: partial_load_inv_def)
    then show ?thesis
      using In_closed Q' pc by (auto split: RenderPc.splits option.splits)
  next
    case In_domContentEventFired
    have "partial_load_inv (insert i S) (t\<lparr>t_domContentLoaded := True\<rparr>)"
      using Q' by (simp add: partial_load_inv_def)
    then show ?thesis
      using In_domContentEventFired Q' pc by (auto split: RenderPc.splits)
  next
    case In_clientReady
    then show ?thesis using Q' pc by (auto split: RenderPc.splits CreateTabPc.splits)
  next
    case In_scriptAdded
    then show ?thesis using Q' pc by (auto split: RenderPc.splits CreateTabPc.splits)
  next
    case (In_tabCreationFailed m)
    then show ?thesis using Q' pc by (auto split: RenderPc.splits)
  next
    case In_pageLoadTimer
    then show ?thesis using Q' pc late by simp
  qed
qed

lemma partial_run:
  assumes "partial_load_inv S t" "after_loading (t_pc t)"
  shows "partial_load_inv (S \<union> set ins) (render_run ins t)"
  using assms
proof (induction ins arbitrary: S t)
  case Nil
  then show ?case by simp
next
  case (Cons i ins)
  from partial_step[OF Cons.prems, of i]
  have "partial_load_inv (insert i S) (render_step i t)" "after_loading (t_pc (render_step i t))"
    by simp_all
  from Cons.IH[OF this] show ?case by simp
qed

lemma getResult_error:
  "t_error t = Some x \<Longrightarrow> \<not> r_ok (getResult t) \<and> r_type (getResult t) = Some (err_type x)"
  by (simp add: getResult_def Let_def)

lemma getResult_ok:
  "t_error t = None \<Longrightarrow>
   r_ok (getResult t) \<and> r_completion (getResult t) = t_completion t \<and> r_html (getResult t) = t_html t"
  by (simp add: getResult_def Let_def)

lemma closed_returns:
  "t_pc t = Pc_Closing None \<Longrightarrow> render_result (render_step In_closed t) = Some (Inr (getResult t))"
  by (simp add: render_result_def)

lemma closed_throws:
  "t_pc t = Pc_Closing (Some e) \<Longrightarrow> render_result (render_step In_closed t) = Some (Inl e)"
  by (simp add: render_result_def)

text \<open>
  Claim C3, as amended. In every render that awaits the page-load phase when the timer
  fires:
  \<^item> if \<^verbatim>\<open>domContentLoaded\<close> is false or \<^verbatim>\<open>allowPartialLoad\<close> is false, then whatever
    arrives until \<^verbatim>\<open>close\<close> is through, \<^verbatim>\<open>render\<close> returns an error of kind Timeout;
  \<^item> otherwise the completion is set to PageLoadTimeout and the HTML is read. If the read
    fails (\<^verbatim>\<open>Runtime.evaluate\<close> rejects, or gives no value), \<^verbatim>\<open>render\<close> throws that error
    and returns no result. If the read gives a value, \<^verbatim>\<open>render\<close> returns a result,
    whatever else arrives: as long as \<^verbatim>\<open>loadPage\<close> has not returned by then, the result is
    successful with completion PageLoadTimeout and that HTML; if \<^verbatim>\<open>loadPage\<close> has
    returned, the result is either an error of kind InitialRequestFailed or
    InitialRequestStatus, or successful with that HTML and the completion type the
    trigger resolved with.
\<close>

theorem page_load_timeout:
  assumes s: "s = rendering options ins" and pc: "t_pc s = Pc_LoadingPage"
  shows
   "(\<not> t_domContentLoaded s \<or> \<not> allowPartialLoad (t_options s) \<longrightarrow>
       (\<forall>later. In_closed \<notin> set later \<longrightarrow>
          (\<exists>r. render_result (render_run (In_pageLoadTimer # later @ [In_closed]) s) = Some (Inr r)
               \<and> \<not> r_ok r \<and> r_type r = Some Timeout)))
    \<and> (t_domContentLoaded s \<and> allowPartialLoad (t_options s) \<longrightarrow>
         t_pc (render_step In_pageLoadTimer s) = Pc_ReadingHtml
       \<and> t_completion (render_step In_pageLoadTimer s) = Some PageLoadTimeout
       \<and> (\<forall>before outcome after f.
            (\<forall>x. In_evaluated x \<notin> set before) \<and> In_closed \<notin> set after
            \<and> f = render_run (In_pageLoadTimer # before @ In_evaluated outcome # after @ [In_closed]) s
            \<longrightarrow>
            (case outcome of
               Inl e \<Rightarrow> render_result f = Some (Inl e)
             | Inr None \<Rightarrow> render_result f = Some (Inl (Error ''Unable to read HTML from page.''))
             | Inr (Some html) \<Rightarrow>
                 (\<exists>r. render_result f = Some (Inr r)
                    \<and> (t_loadPage f \<noteq> Lp_Returned \<longrightarrow>
                         r_ok r \<and> r_completion r = Some PageLoadTimeout \<and> r_html r = Some html)
                    \<and> (t_loadPage f = Lp_Returned \<longrightarrow>
                         (\<not> r_ok r \<and> (r_type r = Some InitialRequestFailed
                                      \<or> r_type r = Some InitialRequestStatus))
                       \<or> (r_ok r \<and> r_html r = Some html
                          \<and> (\<exists>c. In_triggered (Inr c) \<in> set (before @ after)
                                   \<and> r_completion r = Some c)))))))"
proof (intro conjI impI allI)
  have e: "t_error s = None" and lp: "t_loadPage s \<noteq> Lp_Returned"
    using load_inv_rendering[of options ins] pc s by (simp_all add: load_inv_def)
  let ?s' = "render_step In_pageLoadTimer s"
  {
    fix later
    assume no: "\<not> t_domContentLoaded s \<or> \<not> allowPartialLoad (t_options s)"
      and l: "In_closed \<notin> set later"
    let ?x = "\<lparr> err_type = Timeout, err_message = Msg_null \<rparr>"
    have c: "t_pc ?s' = Pc_Closing None" "t_error ?s' = Some ?x"
      using pc e no by (auto simp: after_load_def begin_close_def)
    from closing_stable_run[OF c l]
    have c': "t_pc (render_run later ?s') = Pc_Closing None" "t_error (render_run later ?s') = Some ?x"
      by simp_all
    have "render_result (render_run (In_pageLoadTimer # later @ [In_closed]) s)
          = Some (Inr (getResult (render_run later ?s')))"
      using closed_returns[OF c'(1)] by simp
    moreover have "\<not> r_ok (getResult (render_run later ?s'))
                   \<and> r_type (getResult (render_run later ?s')) = Some Timeout"
      using getResult_error[OF c'(2)] by simp
    ultimately show "\<exists>r. render_result (render_run (In_pageLoadTimer # later @ [In_closed]) s) = Some (Inr r)
               \<and> \<not> r_ok r \<and> r_type r = Some Timeout"
      by blast
  }
  assume yes: "t_domContentLoaded s \<and> allowPartialLoad (t_options s)"
  have s': "?s' = s\<lparr>t_completion := Some PageLoadTimeout, t_pc := Pc_ReadingHtml\<rparr>"
    using pc e yes by (simp add: after_load_def)
  show "t_pc ?s' = Pc_ReadingHtml" "t_completion ?s' = Some PageLoadTimeout"
    unfolding s' by simp_all
  fix before outcome after f
  assume h: "(\<forall>x. In_evaluated x \<notin> set before) \<and> In_closed \<notin> set after
            \<and> f = render_run (In_pageLoadTimer # before @ In_evaluated outcome # after @ [In_closed]) s"
  let ?t1 = "render_run before ?s'"
  let ?t2 = "render_step (In_evaluated outcome) ?t1"
  let ?t3 = "render_run after ?t2"
  have f: "f = render_step In_closed ?t3" using h by simp
  have p0: "t_pc ?s' = Pc_ReadingHtml" unfolding s' by simp
  have t1: "t_pc ?t1 = Pc_ReadingHtml"
    using reading_stable_run[OF p0] h by blast
  have Q0: "partial_load_inv {} ?s'"
    unfolding s' using e lp by (simp add: partial_load_inv_def)
  have "partial_load_inv ({} \<union> set (before @ In_evaluated outcome # after))
          (render_run (before @ In_evaluated outcome # after) ?s')"
    using Q0 p0 by (intro partial_run) simp_all
  then have Q3: "partial_load_inv (set (before @ In_evaluated outcome # after)) ?t3"
    by simp
  show "case outcome of
          Inl e \<Rightarrow> render_result f = Some (Inl e)
        | Inr None \<Rightarrow> render_result f = Some (Inl (Error ''Unable to read HTML from page.''))
        | Inr (Some html) \<Rightarrow>
            (\<exists>r. render_result f = Some (Inr r)
               \<and> (t_loadPage f \<noteq> Lp_Returned \<longrightarrow>
                    r_ok r \<and> r_completion r = Some PageLoadTimeout \<and> r_html r = Some html)
               \<and> (t_loadPage f = Lp_Returned \<longrightarrow>
                    (\<not> r_ok r \<and> (r_type r = Some InitialRequestFailed
                                 \<or> r_type r = Some InitialRequestStatus))
                  \<or> (r_ok r \<and> r_html r = Some html
                     \<and> (\<exists>c. In_triggered (Inr c) \<in> set (before @ after)
                              \<and> r_completion r = Some c))))"
  proof (cases outcome)
    case (Inl err)
    have "t_pc ?t2 = Pc_Closing (Some err)" using t1 Inl by (simp add: begin_close_def)
    then have "t_pc ?t3 = Pc_Closing (Some err)" using closing_keeps_run h by blast
    then show ?thesis using Inl f closed_throws by simp
  next
    case (Inr v)
    show ?thesis
    proof (cases v)
      case None
      have "t_pc ?t2 = Pc_Closing (Some (Error ''Unable to read HTML from page.''))"
        using t1 Inr None by (simp add: begin_close_def)
      then have "t_pc ?t3 = Pc_Closing (Some (Error ''Unable to read HTML from page.''))"
        using closing_keeps_run h by blast
      then show ?thesis using Inr None f closed_throws by simp
    next
      case (Some html)
      have t2: "t_pc ?t2 = Pc_Closing None" "t_html ?t2 = Some html"
        using t1 Inr Some by (simp_all add: begin_close_def)
      have t3: "t_pc ?t3 = Pc_Closing None" "t_html ?t3 = Some html"
        using closing_keeps_run[OF t2(1), of after] t2(2) h by simp_all
      have res: "render_result f = Some (Inr (getResult ?t3))"
        using closed_returns[OF t3(1)] f by simp
      have lpf: "t_loadPage f = t_loadPage ?t3" using f t3(1) by simp
      have a: "r_ok (getResult ?t3) \<and> r_completion (getResult ?t3) = Some PageLoadTimeout
               \<and> r_html (getResult ?t3) = Some html"
        if "t_loadPage ?t3 \<noteq> Lp_Returned"
      proof -
        have "t_error ?t3 = None \<and> t_completion ?t3 = Some PageLoadTimeout"
          using Q3 that by (simp add: partial_load_inv_def)
        then show ?thesis using getResult_ok[of ?t3] t3(2) by simp
      qed
      have b: "(\<not> r_ok (getResult ?t3) \<and> (r_type (getResult ?t3) = Some InitialRequestFailed
                                 \<or> r_type (getResult ?t3) = Some InitialRequestStatus))
             \<or> (r_ok (getResult ?t3) \<and> r_html (getResult ?t3) = Some html
                \<and> (\<exists>c. In_triggered (Inr c) \<in> set (before @ after)
                         \<and> r_completion (getResult ?t3) = Some c))"
        if "t_loadPage ?t3 = Lp_Returned"
      proof -
        from Q3 that
        consider (err) x where "t_error ?t3 = Some x"
            "err_type x = InitialRequestFailed \<or> err_type x = InitialRequestStatus"
          | (ok) c where "t_error ?t3 = None"
            "In_triggered (Inr c) \<in> set (before @ In_evaluated outcome # after)"
            "t_completion ?t3 = Some c"
          unfolding partial_load_inv_def by blast
        then show ?thesis
        proof cases
          case err
          then show ?thesis using getResult_error[OF err(1)] by auto
        next
          case ok
          have "In_triggered (Inr c) \<in> set (before @ after)" using ok(2) by auto
          then show ?thesis using getResult_ok[OF ok(1)] ok(3) t3(2) by auto
        qed
      qed
      show ?thesis
        using Inr Some res lpf a b by simp
    qed
  qed
qed

text \<open>
  With \<^verbatim>\<open>allowPartialLoad\<close> and the DOM content loaded, the timer fires while \<^verbatim>\<open>loadPage\<close>
  waits for the trigger. If \<^verbatim>\<open>Runtime.evaluate\<close> gives no value, or rejects, \<^verbatim>\<open>readHtml\<close>
  throws and \<^verbatim>\<open>render\<close> throws with it: no result is returned. If the trigger resolves
  while the HTML is read, \<^verbatim>\<open>loadPage\<close> overwrites the completion: the result is
  successful with completion Requests. And if the timer fires before the initial request
  is done and that request fails while the HTML is read, \<^verbatim>\<open>loadPage\<close> records the error:
  the result is an error of kind InitialRequestFailed.
\<close>

theorem partial_load_not_always_page_load_timeout:
  "t_pc (rendering partial_load_options loaded_page) = Pc_LoadingPage
   \<and> t_domContentLoaded (rendering partial_load_options loaded_page)
   \<and> allowPartialLoad (t_options (rendering partial_load_options loaded_page))
   \<and> render_result (rendering partial_load_options
         (loaded_page @ [In_pageLoadTimer, In_evaluated (Inr None), In_closed]))
       = Some (Inl (Error ''Unable to read HTML from page.''))
   \<and> render_result (rendering partial_load_options
         (loaded_page @ [In_pageLoadTimer, In_evaluated (Inl (Error ''Target closed.'')), In_closed]))
       = Some (Inl (Error ''Target closed.''))
   \<and> (case render_result (rendering partial_load_options
         (loaded_page @ [In_pageLoadTimer, In_triggered (Inr Requests),
                         In_evaluated (Inr (Some ''<html></html>'')), In_closed])) of
        Some (Inr r) \<Rightarrow> r_ok r \<and> r_completion r = Some Requests
      | _ \<Rightarrow> False)
   \<and> t_pc (rendering partial_load_options slow_page) = Pc_LoadingPage
   \<and> t_domContentLoaded (rendering partial_load_options slow_page)
   \<and> (case render_result (rendering partial_load_options
         (slow_page @ [In_pageLoadTimer, In_network (LoadingFailed ''1'' 3 ''net::ERR_ABORTED''),
                       In_evaluated (Inr (Some ''<html></html>'')), In_closed])) of
        Some (Inr r) \<Rightarrow> \<not> r_ok r \<and> r_type r = Some InitialRequestFailed
      | _ \<Rightarrow> False)"
  by (simp add: render_eval watcher_eval loaded_page_def slow_page_def partial_load_options_def)

text \<open>
  Witness for C3: a timeout before the DOM content event gives an error of kind Timeout.
  A timeout with \<^verbatim>\<open>allowPartialLoad\<close> after the DOM content event, before the initial request
  is loaded: the request finishes loading while the HTML is read, \<^verbatim>\<open>loadPage\<close> goes on
  to wait for the trigger, and the result is successful with completion PageLoadTimeout.
  On the same page, a read that gives no value makes \<^verbatim>\<open>render\<close> throw.
\<close>

theorem page_load_timeout_witness:
  "(\<exists>r. render_result (render_run
            (In_pageLoadTimer # [In_network (RequestWillBeSent ''1'' ''http://a/'' 1 None)] @ [In_closed])
            (rendering no_render_options [In_clientReady, In_scriptAdded, In_navigated None]))
          = Some (Inr r)
        \<and> \<not> r_ok r \<and> r_type r = Some Timeout)
   \<and> (\<exists>r. render_result (render_run
            (In_pageLoadTimer # [In_network (LoadingFinished ''1'' 3)]
               @ In_evaluated (Inr (Some ''<html></html>'')) # [] @ [In_closed])
            (rendering partial_load_options slow_page))
          = Some (Inr r)
        \<and> r_ok r \<and> r_completion r = Some PageLoadTimeout \<and> r_html r = Some ''<html></html>'')
   \<and> render_result (render_run
            (In_pageLoadTimer # [In_network (LoadingFinished ''1'' 3)]
               @ In_evaluated (Inr None) # [] @ [In_closed])
            (rendering partial_load_options slow_page))
       = Some (Inl (Error ''Unable to read HTML from page.''))"
proof -
  let ?a = "rendering no_render_options [In_clientReady, In_scriptAdded, In_navigated None]"
  let ?b = "rendering partial_load_options slow_page"
  let ?f = "render_run
            (In_pageLoadTimer # [In_network (LoadingFinished ''1'' 3)]
               @ In_evaluated (Inr (Some ''<html></html>'')) # [] @ [In_closed]) ?b"
  let ?g = "render_run
            (In_pageLoadTimer # [In_network (LoadingFinished ''1'' 3)]
               @ In_evaluated (Inr None) # [] @ [In_closed]) ?b"
  have pa: "t_pc ?a = Pc_LoadingPage" and na: "\<not> t_domContentLoaded ?a \<or> \<not> allowPartialLoad (t_options ?a)"
    by (simp_all add: render_eval watcher_eval)
  have la: "In_closed \<notin> set [In_network (RequestWillBeSent ''1'' ''http://a/'' 1 None)]"
    by simp
  note A = page_load_timeout[OF refl pa, THEN conjunct1, rule_format, OF na la]
  have pb: "t_pc ?b = Pc_LoadingPage" and yb: "t_domContentLoaded ?b \<and> allowPartialLoad (t_options ?b)"
    by (simp_all add: render_eval watcher_eval slow_page_def partial_load_options_def)
  have ib: "(\<forall>x. In_evaluated x \<notin> set [In_network (LoadingFinished ''1'' 3)])
            \<and> In_closed \<notin> set [] \<and> ?f = ?f"
    by simp
  have ig: "(\<forall>x. In_evaluated x \<notin> set [In_network (LoadingFinished ''1'' 3)])
            \<and> In_closed \<notin> set [] \<and> ?g = ?g"
    by simp
  note P = page_load_timeout[OF refl pb, THEN conjunct2, rule_format, OF yb,
      THEN conjunct2, THEN conjunct2, rule_format]
  have lf: "t_loadPage ?f \<noteq> Lp_Returned"
    by (simp add: render_eval watcher_eval slow_page_def partial_load_options_def)
  from P[OF ib]
  obtain r where r: "render_result ?f = Some (Inr r)"
    and ok: "t_loadPage ?f \<noteq> Lp_Returned \<longrightarrow>
             r_ok r \<and> r_completion r = Some PageLoadTimeout \<and> r_html r = Some ''<html></html>''"
    by (simp only: sum.case option.case) (elim exE conjE, rule that)
  have B: "\<exists>r. render_result ?f = Some (Inr r)
        \<and> r_ok r \<and> r_completion r = Some PageLoadTimeout \<and> r_html r = Some ''<html></html>''"
    using r ok[rule_format, OF lf] by (intro exI[of _ r] conjI) simp_all
  have C: "render_result ?g = Some (Inl (Error ''Unable to read HTML from page.''))"
    using P[OF ig] by (simp only: sum.case option.case)
  show ?thesis using A B C by (intro conjI)
qed

subsection \<open>Response headers\<close>

lemma headers_from_requests:
  "p_requests w' = p_requests w \<Longrightarrow> headers_from E w' = headers_from E w"
  by (simp add: headers_from_def)


lemma headers_from_unsubscribe [simp]: "headers_from E (unsubscribe_sub k w) = headers_from E w"
  by (rule headers_from_requests) simp





lemma req_begin_close [simp]:
  "p_requests (t_requestWatcher (begin_close e t)) = p_requests (t_requestWatcher t)"
  by (simp add: begin_close_def)

lemma req_after_load [simp]:
  "p_requests (t_requestWatcher (after_load b t)) = p_requests (t_requestWatcher t)"
  by (simp add: after_load_def)

lemma req_done [simp]:
  "p_requests (t_requestWatcher (loadPage_done lp t)) = p_requests (t_requestWatcher t)"
  by (simp add: loadPage_done_def Let_def)

lemma req_after_initial [simp]:
  "p_requests (t_requestWatcher (loadPage_after_initial r t)) = p_requests (t_requestWatcher t)"
  by (simp add: loadPage_after_initial_def Let_def)

lemma req_poll [simp]:
  "p_requests (t_requestWatcher (loadPage_poll t)) = p_requests (t_requestWatcher t)"
  by (simp add: loadPage_poll_def split: option.splits)

lemma req_tab_failed [simp]:
  "p_requests (t_requestWatcher (tab_creation_failed m t)) = p_requests (t_requestWatcher t)"
  by (simp add: tab_creation_failed_def)









end
